theory Spec2Isabelle
  imports Main
begin

section \<open>The syntax tree handed to the extractor\<close>

text \<open>
  \<^verbatim>\<open>python_ast_extractor.py\<close> works on the tree built by Python's \<^verbatim>\<open>ast.parse\<close>.
  Its two visitors (\<^verbatim>\<open>CyclomaticComplexityCalculator\<close> and \<^verbatim>\<open>PythonASTExtractor\<close>) dispatch on
  the class of a node and fall back to \<^verbatim>\<open>generic_visit\<close>, which visits the child nodes of
  every field in field order. The datatypes below keep one constructor for every node
  class that one of the visitors or one of the two label functions looks at, with the
  fields in the order of the node's \<^verbatim>\<open>_fields\<close>; every other expression node is
  \<open>OtherExpr\<close> and every other simple statement is \<open>OtherStmt\<close>, carrying the
  expressions below it in field order.

  Expression nodes never contain statements. The parameters of a \<^verbatim>\<open>lambda\<close> are part of
  \<open>OtherExpr\<close>: the expressions below a \<^verbatim>\<open>Lambda\<close> node are its defaults and its body.
  \<open>Constant\<close> carries \<^verbatim>\<open>str(node.value)\<close>, the only thing the program reads of a constant.
  \<open>Try\<close> stands for \<^verbatim>\<open>Try\<close> and \<^verbatim>\<open>TryStar\<close>, which have the same fields and no handler in
  either visitor.

  \<open>type_params\<close> is the field of that name that function and class definitions have from
  Python 3.12 on (\<^verbatim>\<open>def f[T: bound](x)\<close>): it carries the expressions below the type parameter
  nodes (bounds and defaults) in field order, and is empty on an older grammar and for a
  definition without type parameters. \<open>level\<close> is the number of leading dots of a relative
  import, 0 for an absolute one.
\<close>

datatype boolop = And | Or

datatype expr =
    Name string
  | Constant string
  | Attribute expr string
  | BoolOp boolop "expr list"
  | ListComp expr "comprehension list"
  | SetComp expr "comprehension list"
  | DictComp expr expr "comprehension list"
  | GeneratorExp expr "comprehension list"
  | OtherExpr "expr list"
and comprehension =
    Comprehension (target: expr) (iter: expr) (ifs: "expr list")

record arg =
  arg :: string
  annotation :: "expr option"

record arguments =
  posonlyargs :: "arg list"
  args :: "arg list"
  vararg :: "arg option"
  kwonlyargs :: "arg list"
  kw_defaults :: "expr option list"
  kwarg :: "arg option"
  defaults :: "expr list"

datatype keyword = Keyword "string option" expr

datatype withitem = Withitem expr "expr option"

datatype alias_node = Alias (alias_name: string) (asname: "string option")

datatype stmt =
    FunctionDef (name: string) (def_args: arguments) (body: "stmt list")
      (decorator_list: "expr list") (returns: "expr option") (type_params: "expr list")
      (lineno: nat) (end_lineno: "nat option")
  | AsyncFunctionDef (name: string) (def_args: arguments) (body: "stmt list")
      (decorator_list: "expr list") (returns: "expr option") (type_params: "expr list")
      (lineno: nat) (end_lineno: "nat option")
  | ClassDef (name: string) (bases: "expr list") (class_keywords: "keyword list")
      (body: "stmt list") (decorator_list: "expr list") (type_params: "expr list")
      (lineno: nat) (end_lineno: "nat option")
  | Import (names: "alias_node list") (lineno: nat)
  | ImportFrom (from_module: "string option") (names: "alias_node list") (level: nat)
      (lineno: nat)
  | If expr "stmt list" "stmt list"
  | While expr "stmt list" "stmt list"
  | For expr expr "stmt list" "stmt list"
  | AsyncFor expr expr "stmt list" "stmt list"
  | With "withitem list" "stmt list"
  | AsyncWith "withitem list" "stmt list"
  | Try "stmt list" "excepthandler list" "stmt list" "stmt list"
  | Match expr "match_case list"
  | OtherStmt "expr list"
and excepthandler =
    ExceptHandler "expr option" "string option" "stmt list"
and match_case =
    MatchCase "expr list" "expr option" "stmt list"

section \<open>CyclomaticComplexityCalculator\<close>

text \<open>
  The calculator's only state is its \<^verbatim>\<open>complexity\<close> attribute, a Python integer. Every
  visiting function takes the attribute's value and returns the new one.
\<close>

definition count_filters :: "comprehension list \<Rightarrow> int \<Rightarrow> int" where
  \<comment> \<open>\<^verbatim>\<open>for generator in node.generators: if generator.ifs: self.complexity += len(generator.ifs)\<close>\<close>
  "count_filters generators c =
     fold (\<lambda>generator c. if ifs generator \<noteq> [] then c + int (length (ifs generator)) else c)
       generators c"

fun cc_expr :: "expr \<Rightarrow> int \<Rightarrow> int"
  and cc_comprehension :: "comprehension \<Rightarrow> int \<Rightarrow> int" where
  "cc_expr (Name i) c = c"
| "cc_expr (Constant v) c = c"
| "cc_expr (Attribute v a) c = cc_expr v c"
| "cc_expr (BoolOp op values) c =
     fold cc_expr values
             (if op = And \<or> op = Or then c + (int (length values) - 1) else c)"
| "cc_expr (ListComp elt generators) c =
     fold cc_comprehension generators (cc_expr elt (count_filters generators c))"
| "cc_expr (SetComp elt generators) c =
     fold cc_comprehension generators (cc_expr elt (count_filters generators c))"
| "cc_expr (DictComp k v generators) c =
     fold cc_comprehension generators
             (cc_expr v (cc_expr k (count_filters generators c)))"
| "cc_expr (GeneratorExp elt generators) c =
     fold cc_comprehension generators (cc_expr elt (count_filters generators c))"
| "cc_expr (OtherExpr es) c = fold cc_expr es c"
| "cc_comprehension (Comprehension t i conds) c =
     fold cc_expr conds (cc_expr i (cc_expr t c))"

definition cc_opt :: "expr option \<Rightarrow> int \<Rightarrow> int" where
  \<comment> \<open>a field holding a node or \<^verbatim>\<open>None\<close>\<close>
  "cc_opt e c = (case e of None \<Rightarrow> c | Some x \<Rightarrow> cc_expr x c)"

definition cc_arg :: "arg \<Rightarrow> int \<Rightarrow> int" where
  "cc_arg a c = cc_opt (annotation a) c"

definition cc_arg_opt :: "arg option \<Rightarrow> int \<Rightarrow> int" where
  "cc_arg_opt a c = (case a of None \<Rightarrow> c | Some x \<Rightarrow> cc_arg x c)"

definition cc_arguments :: "arguments \<Rightarrow> int \<Rightarrow> int" where
  "cc_arguments a c =
     fold cc_expr (defaults a)
       (cc_arg_opt (kwarg a)
         (fold cc_opt (kw_defaults a)
           (fold cc_arg (kwonlyargs a)
             (cc_arg_opt (vararg a)
               (fold cc_arg (args a)
                 (fold cc_arg (posonlyargs a) c))))))"

fun cc_keyword :: "keyword \<Rightarrow> int \<Rightarrow> int" where
  "cc_keyword (Keyword k v) c = cc_expr v c"

fun cc_withitem :: "withitem \<Rightarrow> int \<Rightarrow> int" where
  "cc_withitem (Withitem context_expr optional_vars) c =
     cc_opt optional_vars (cc_expr context_expr c)"

fun cc_stmt :: "stmt \<Rightarrow> int \<Rightarrow> int"
  and cc_excepthandler :: "excepthandler \<Rightarrow> int \<Rightarrow> int"
  and cc_match_case :: "match_case \<Rightarrow> int \<Rightarrow> int" where
  "cc_stmt (FunctionDef n a b d r tp l el) c =
     fold cc_expr tp (cc_opt r (fold cc_expr d (fold cc_stmt b (cc_arguments a c))))"
| "cc_stmt (AsyncFunctionDef n a b d r tp l el) c =
     fold cc_expr tp (cc_opt r (fold cc_expr d (fold cc_stmt b (cc_arguments a c))))"
| "cc_stmt (ClassDef n bs ks b d tp l el) c =
     fold cc_expr tp
       (fold cc_expr d (fold cc_stmt b (fold cc_keyword ks (fold cc_expr bs c))))"
| "cc_stmt (Import ns l) c = c"
| "cc_stmt (ImportFrom m ns lv l) c = c"
| "cc_stmt (If test b orelse) c =
     fold cc_stmt orelse (fold cc_stmt b (cc_expr test (c + 1)))"
| "cc_stmt (While test b orelse) c =
     fold cc_stmt orelse (fold cc_stmt b (cc_expr test (c + 1)))"
| "cc_stmt (For t i b orelse) c =
     fold cc_stmt orelse (fold cc_stmt b (cc_expr i (cc_expr t (c + 1))))"
| "cc_stmt (AsyncFor t i b orelse) c =
     fold cc_stmt orelse (fold cc_stmt b (cc_expr i (cc_expr t (c + 1))))"
| "cc_stmt (With items b) c =
     fold cc_stmt b (fold cc_withitem items (c + 1))"
| "cc_stmt (AsyncWith items b) c =
     fold cc_stmt b (fold cc_withitem items (c + 1))"
| "cc_stmt (Try b handlers orelse finalbody) c =
     fold cc_stmt finalbody
             (fold cc_stmt orelse (fold cc_excepthandler handlers (fold cc_stmt b c)))"
| "cc_stmt (Match subject cases) c =
     fold cc_match_case cases (cc_expr subject c)"
| "cc_stmt (OtherStmt es) c = fold cc_expr es c"
| "cc_excepthandler (ExceptHandler t n b) c =
     fold cc_stmt b (cc_opt t (c + 1))"
| "cc_match_case (MatchCase pattern guard b) c =
     fold cc_stmt b (cc_opt guard (fold cc_expr pattern c))"

definition calculate_complexity :: "stmt \<Rightarrow> int" where
  \<comment> \<open>\<^verbatim>\<open>complexity_calc = CyclomaticComplexityCalculator(); complexity_calc.visit(node)\<close>\<close>
  "calculate_complexity node = cc_stmt node 1"

section \<open>The Python library the program calls\<close>

text \<open>
  The exceptions the program tells apart: \<^verbatim>\<open>extract\<close> catches \<^verbatim>\<open>SyntaxError\<close>, \<^verbatim>\<open>main\<close>
  catches every \<^verbatim>\<open>Exception\<close>. \<open>OtherException\<close> is any exception class that is not a
  \<^verbatim>\<open>SyntaxError\<close>.
\<close>

datatype exn = SyntaxError | OtherException

text \<open>
  What the interpreter and the standard library do is a parameter of the model:
  reading the file (\<^verbatim>\<open>open(...).read()\<close>), \<^verbatim>\<open>ast.parse\<close>, \<^verbatim>\<open>ast.unparse\<close> (\<open>None\<close> when it is
  missing or raises), the \<^verbatim>\<open>lineno\<close> attributes of the nodes \<^verbatim>\<open>ast.walk\<close> yields below a
  node, and the exceptions the interpreter itself may raise while the tree is
  traversed (\<^verbatim>\<open>RecursionError\<close>, \<^verbatim>\<open>MemoryError\<close>) or while the result is serialised and
  printed.
\<close>

record pylib =
  open_read :: "string \<Rightarrow> exn + string"
  ast_parse :: "string \<Rightarrow> string \<Rightarrow> exn + stmt list"
  ast_unparse :: "expr \<Rightarrow> string option"
  ast_walk_linenos :: "stmt \<Rightarrow> nat list"
  traversal_fault :: "exn option"
  serialization_fault :: "exn option"

text \<open>Python's truth value of a string or \<^verbatim>\<open>None\<close>: false for \<^verbatim>\<open>None\<close> and for \<^verbatim>\<open>""\<close>.\<close>

fun truthy :: "string option \<Rightarrow> bool" where
  "truthy None = False"
| "truthy (Some s) = (s \<noteq> [])"

text \<open>\<^verbatim>\<open>str.rfind\<close> for a single character, \<^verbatim>\<open>posixpath.basename\<close> and \<^verbatim>\<open>posixpath.splitext\<close>.\<close>

definition rfind :: "string \<Rightarrow> char \<Rightarrow> int" where
  "rfind p ch =
     (case filter (\<lambda>i. p ! i = ch) (rev [0..<length p]) of
        [] \<Rightarrow> - 1
      | i # _ \<Rightarrow> int i)"

definition basename :: "string \<Rightarrow> string" where
  "basename p = drop (nat (rfind p CHR ''/'' + 1)) p"

definition splitext :: "string \<Rightarrow> string \<times> string" where
  "splitext p =
     (let sepIndex = rfind p CHR ''/'';
          dotIndex = rfind p CHR ''.''
      in if dotIndex > sepIndex
         then (if list_ex (\<lambda>i. p ! i \<noteq> CHR ''.'') [nat (sepIndex + 1)..<nat dotIndex]
               then (take (nat dotIndex) p, drop (nat dotIndex) p)
               else (p, []))
         else (p, []))"

section \<open>PythonASTNode and the emitted dictionaries\<close>

record parameter =
  p_name :: string
  p_type :: string

record PythonASTNode =
  node_type :: string
  node_name :: string
  start_line :: nat
  end_line :: nat
  parameter_count :: nat
  return_count :: nat
  parameters :: "parameter list"
  return_values :: "parameter list"
  cyclomatic_complexity :: int
  parent :: string
  decorators :: "string list"
  base_classes :: "string list"

definition new_PythonASTNode :: "string \<Rightarrow> string \<Rightarrow> nat \<Rightarrow> nat \<Rightarrow> PythonASTNode" where
  \<comment> \<open>\<^verbatim>\<open>PythonASTNode.__init__\<close>\<close>
  "new_PythonASTNode ty nm start_ln end_ln =
     \<lparr>node_type = ty, node_name = nm, start_line = start_ln, end_line = end_ln,
      parameter_count = 0, return_count = 0, parameters = [], return_values = [],
      cyclomatic_complexity = 1, parent = [], decorators = [], base_classes = []\<rparr>"

record import_info =
  i_module :: string
  i_name :: string
  i_alias :: string
  i_line :: nat

record result =
  r_module :: string
  r_nodes :: "PythonASTNode list"
  r_imports :: "import_info list"
  r_relationships :: "unit list"

section \<open>PythonASTExtractor\<close>

record extractor =
  source_code :: string
  file_path :: string
  nodes :: "PythonASTNode list"
  import_infos :: "import_info list"
  relationships :: "unit list"
  current_class :: "string option"

definition new_extractor :: "string \<Rightarrow> string \<Rightarrow> extractor" where
  \<comment> \<open>\<^verbatim>\<open>PythonASTExtractor.__init__\<close>; the attribute \<^verbatim>\<open>imports\<close> is \<open>import_infos\<close>\<close>
  "new_extractor src path =
     \<lparr>source_code = src, file_path = path, nodes = [], import_infos = [],
      relationships = [], current_class = None\<rparr>"

definition get_module_name :: "extractor \<Rightarrow> string" where
  "get_module_name self = fst (splitext (basename (file_path self)))"

definition node_to_dict :: "PythonASTNode \<Rightarrow> PythonASTNode" where
  "node_to_dict node =
     \<lparr>node_type = node_type node, node_name = node_name node,
      start_line = start_line node, end_line = end_line node,
      parameter_count = parameter_count node, return_count = return_count node,
      parameters = parameters node, return_values = return_values node,
      cyclomatic_complexity = cyclomatic_complexity node, parent = parent node,
      decorators = decorators node, base_classes = base_classes node\<rparr>"

definition get_end_line :: "pylib \<Rightarrow> stmt \<Rightarrow> nat" where
  "get_end_line lib node =
     (let fallback = fold (\<lambda>child_lineno max_line.
                             if child_lineno \<noteq> 0 then max max_line child_lineno else max_line)
                          (ast_walk_linenos lib node) (lineno node)
      in case end_lineno node of
           Some n \<Rightarrow> if n \<noteq> 0 then n else fallback
         | None \<Rightarrow> fallback)"

fun get_annotation :: "pylib \<Rightarrow> expr option \<Rightarrow> string" where
  "get_annotation lib None = []"
| "get_annotation lib (Some (Name i)) = i"
| "get_annotation lib (Some (Constant v)) = v"
| "get_annotation lib (Some (Attribute v a)) = get_annotation lib (Some v) @ ''.'' @ a"
| "get_annotation lib (Some e) = (case ast_unparse lib e of Some s \<Rightarrow> s | None \<Rightarrow> [])"

fun get_name_from_node :: "pylib \<Rightarrow> expr \<Rightarrow> string" where
  "get_name_from_node lib (Name i) = i"
| "get_name_from_node lib (Attribute v a) = get_name_from_node lib v @ ''.'' @ a"
| "get_name_from_node lib (Constant v) = v"
| "get_name_from_node lib e = (case ast_unparse lib e of Some s \<Rightarrow> s | None \<Rightarrow> [])"

definition func_node :: "pylib \<Rightarrow> string option \<Rightarrow> stmt \<Rightarrow> PythonASTNode" where
  \<comment> \<open>the \<^verbatim>\<open>func_node\<close> that \<^verbatim>\<open>visit_FunctionDef\<close> builds for \<open>node\<close> when \<^verbatim>\<open>self.current_class\<close>
      holds \<open>cls\<close>\<close>
  "func_node lib cls node =
     (let (ty, par) = (if truthy cls then (''method'', the cls) else (''function'', []));
          func_node = (new_PythonASTNode ty (name node) (lineno node) (get_end_line lib node))
                        \<lparr>parent := par\<rparr>;
          a = def_args node;
          params =
            map (\<lambda>x. \<lparr>p_name = arg x,
                      p_type = (if annotation x \<noteq> None then get_annotation lib (annotation x)
                                else [])\<rparr>) (args a)
            @ (case vararg a of
                 Some x \<Rightarrow> [\<lparr>p_name = ''*'' @ arg x,
                             p_type = (if annotation x \<noteq> None
                                       then get_annotation lib (annotation x) else [])\<rparr>]
               | None \<Rightarrow> [])
            @ (case kwarg a of
                 Some x \<Rightarrow> [\<lparr>p_name = ''**'' @ arg x,
                             p_type = (if annotation x \<noteq> None
                                       then get_annotation lib (annotation x) else [])\<rparr>]
               | None \<Rightarrow> []);
          func_node = func_node\<lparr>parameters := params, parameter_count := length params\<rparr>;
          func_node = (case returns node of
                         Some r \<Rightarrow> func_node\<lparr>return_values :=
                                                 [\<lparr>p_name = [], p_type = get_annotation lib (Some r)\<rparr>],
                                               return_count := 1\<rparr>
                       | None \<Rightarrow> func_node);
          func_node = func_node\<lparr>cyclomatic_complexity := calculate_complexity node\<rparr>
      in func_node\<lparr>decorators := map (get_name_from_node lib) (decorator_list node)\<rparr>)"

definition visit_FunctionDef :: "pylib \<Rightarrow> stmt \<Rightarrow> extractor \<Rightarrow> extractor" where
  "visit_FunctionDef lib node self =
     self\<lparr>nodes := nodes self @ [func_node lib (current_class self) node]\<rparr>"

definition class_node :: "pylib \<Rightarrow> stmt \<Rightarrow> PythonASTNode" where
  \<comment> \<open>the \<^verbatim>\<open>class_node\<close> that \<^verbatim>\<open>visit_ClassDef\<close> builds for \<open>node\<close>\<close>
  "class_node lib node =
     (let class_node = new_PythonASTNode ''class'' (name node) (lineno node)
                         (get_end_line lib node);
          class_node = class_node\<lparr>base_classes := map (get_name_from_node lib) (bases node)\<rparr>
      in class_node\<lparr>decorators := map (get_name_from_node lib) (decorator_list node)\<rparr>)"

definition visit_Import :: "stmt \<Rightarrow> extractor \<Rightarrow> extractor" where
  "visit_Import node self =
     fold (\<lambda>al self.
             self\<lparr>import_infos := import_infos self @
               [\<lparr>i_module = alias_name al,
                 i_name = (if truthy (asname al) then the (asname al) else alias_name al),
                 i_alias = (if truthy (asname al) then the (asname al) else []),
                 i_line = lineno node\<rparr>]\<rparr>)
          (names node) self"

definition visit_ImportFrom :: "stmt \<Rightarrow> extractor \<Rightarrow> extractor" where
  "visit_ImportFrom node self =
     (let m = (if truthy (from_module node) then the (from_module node) else [])
      in fold (\<lambda>al self.
                 self\<lparr>import_infos := import_infos self @
                   [\<lparr>i_module = (if m \<noteq> [] then m @ ''.'' @ alias_name al else alias_name al),
                     i_name = (if truthy (asname al) then the (asname al) else alias_name al),
                     i_alias = (if truthy (asname al) then the (asname al) else []),
                     i_line = lineno node\<rparr>]\<rparr>)
              (names node) self)"

text \<open>
  \<open>visit\<close> is \<^verbatim>\<open>NodeVisitor.visit\<close> on a statement: the handler of the node's class when
  the extractor has one, \<^verbatim>\<open>generic_visit\<close> otherwise. \<^verbatim>\<open>generic_visit\<close> on expression fields
  changes nothing (an expression contains no statement, and the extractor has no
  handler for an expression), so only the statement fields appear. The equation for
  \<open>ClassDef\<close> is \<^verbatim>\<open>visit_ClassDef\<close>.
\<close>

fun visit :: "pylib \<Rightarrow> stmt \<Rightarrow> extractor \<Rightarrow> extractor"
  and visit_excepthandler :: "pylib \<Rightarrow> excepthandler \<Rightarrow> extractor \<Rightarrow> extractor"
  and visit_match_case :: "pylib \<Rightarrow> match_case \<Rightarrow> extractor \<Rightarrow> extractor" where
  "visit lib (FunctionDef n a b d r tp l el) self =
     visit_FunctionDef lib (FunctionDef n a b d r tp l el) self"
| "visit lib (AsyncFunctionDef n a b d r tp l el) self =
     visit_FunctionDef lib (AsyncFunctionDef n a b d r tp l el) self"
| "visit lib (ClassDef n bs ks b d tp l el) self =
     (let self = self\<lparr>nodes := nodes self @ [class_node lib (ClassDef n bs ks b d tp l el)]\<rparr>;
          previous_class = current_class self;
          self = self\<lparr>current_class := Some n\<rparr>;
          self = fold (visit lib) b self
      in self\<lparr>current_class := previous_class\<rparr>)"
| "visit lib (Import ns l) self = visit_Import (Import ns l) self"
| "visit lib (ImportFrom m ns lv l) self = visit_ImportFrom (ImportFrom m ns lv l) self"
| "visit lib (If test b orelse) self = fold (visit lib) orelse (fold (visit lib) b self)"
| "visit lib (While test b orelse) self = fold (visit lib) orelse (fold (visit lib) b self)"
| "visit lib (For t i b orelse) self = fold (visit lib) orelse (fold (visit lib) b self)"
| "visit lib (AsyncFor t i b orelse) self = fold (visit lib) orelse (fold (visit lib) b self)"
| "visit lib (With items b) self = fold (visit lib) b self"
| "visit lib (AsyncWith items b) self = fold (visit lib) b self"
| "visit lib (Try b handlers orelse finalbody) self =
     fold (visit lib) finalbody
       (fold (visit lib) orelse
         (fold (visit_excepthandler lib) handlers (fold (visit lib) b self)))"
| "visit lib (Match subject cases) self = fold (visit_match_case lib) cases self"
| "visit lib (OtherStmt es) self = self"
| "visit_excepthandler lib (ExceptHandler t n b) self = fold (visit lib) b self"
| "visit_match_case lib (MatchCase pattern guard b) self = fold (visit lib) b self"

definition empty_result :: "string \<Rightarrow> result" where
  "empty_result m = \<lparr>r_module = m, r_nodes = [], r_imports = [], r_relationships = []\<rparr>"

definition run_extract :: "pylib \<Rightarrow> extractor \<Rightarrow> exn + result" where
  \<comment> \<open>\<^verbatim>\<open>PythonASTExtractor.extract\<close>\<close>
  "run_extract lib self =
     (case (case ast_parse lib (source_code self) (file_path self) of
              Inl e \<Rightarrow> Inl e
            | Inr tree \<Rightarrow>
                (case traversal_fault lib of
                   Some e \<Rightarrow> Inl e
                 | None \<Rightarrow>
                     (let self = fold (visit lib) tree self
                      in Inr \<lparr>r_module = get_module_name self,
                              r_nodes = map node_to_dict (nodes self),
                              r_imports = import_infos self,
                              r_relationships = relationships self\<rparr>))) of
        Inl SyntaxError \<Rightarrow> Inr (empty_result (get_module_name self))
      | Inl e \<Rightarrow> Inl e
      | Inr r \<Rightarrow> Inr r)"

text \<open>
  What one run of the process does: the document it prints on standard output, whether
  it is printed with the compact separators, and the exit status. \<open>argv\<close> is \<^verbatim>\<open>sys.argv\<close>,
  the program name first.
\<close>

record outcome =
  printed :: result
  compact :: bool
  exit_status :: nat

definition main :: "pylib \<Rightarrow> string list \<Rightarrow> outcome" where
  "main lib argv =
     (if length argv \<noteq> 2
      then \<lparr>printed = empty_result [], compact = False, exit_status = 1\<rparr>
      else
        (let path = argv ! 1
         in case (case open_read lib path of
                    Inl e \<Rightarrow> Inl e
                  | Inr src \<Rightarrow>
                      (case run_extract lib (new_extractor src path) of
                         Inl e \<Rightarrow> Inl e
                       | Inr res \<Rightarrow>
                           (case serialization_fault lib of
                              Some e \<Rightarrow> Inl e
                            | None \<Rightarrow> Inr res))) of
              Inr res \<Rightarrow> \<lparr>printed = res, compact = True, exit_status = 0\<rparr>
            | Inl (e :: exn) \<Rightarrow> \<lparr>printed = empty_result [], compact = False, exit_status = 0\<rparr>))"

section \<open>The counted constructs of a sub-tree\<close>

text \<open>
  The constructs the calculator counts, listed for a whole sub-tree in the order of the
  traversal, and what each adds to the score: a boolean operation of \<open>n\<close> operands adds
  \<open>n - 1\<close>, every other counted construct adds 1.
\<close>

datatype construct =
    Conditional | Loop | Handler | WithBlock | BoolCombination nat | Filter

fun increment :: "construct \<Rightarrow> int" where
  "increment (BoolCombination n) = int n - 1"
| "increment k = 1"

definition weight :: "construct list \<Rightarrow> int" where
  "weight ks = sum_list (map increment ks)"

definition filters :: "comprehension list \<Rightarrow> construct list" where
  "filters generators = concat (map (\<lambda>g. replicate (length (ifs g)) Filter) generators)"

fun constructs_expr :: "expr \<Rightarrow> construct list"
  and constructs_comprehension :: "comprehension \<Rightarrow> construct list" where
  "constructs_expr (Name i) = []"
| "constructs_expr (Constant v) = []"
| "constructs_expr (Attribute v a) = constructs_expr v"
| "constructs_expr (BoolOp op values) =
     BoolCombination (length values) # concat (map constructs_expr values)"
| "constructs_expr (ListComp elt generators) =
     filters generators @ constructs_expr elt @ concat (map constructs_comprehension generators)"
| "constructs_expr (SetComp elt generators) =
     filters generators @ constructs_expr elt @ concat (map constructs_comprehension generators)"
| "constructs_expr (DictComp k v generators) =
     filters generators @ constructs_expr k @ constructs_expr v
       @ concat (map constructs_comprehension generators)"
| "constructs_expr (GeneratorExp elt generators) =
     filters generators @ constructs_expr elt @ concat (map constructs_comprehension generators)"
| "constructs_expr (OtherExpr es) = concat (map constructs_expr es)"
| "constructs_comprehension (Comprehension t i conds) =
     constructs_expr t @ constructs_expr i @ concat (map constructs_expr conds)"

definition constructs_opt :: "expr option \<Rightarrow> construct list" where
  "constructs_opt e = (case e of None \<Rightarrow> [] | Some x \<Rightarrow> constructs_expr x)"

definition constructs_arg :: "arg \<Rightarrow> construct list" where
  "constructs_arg a = constructs_opt (annotation a)"

definition constructs_arguments :: "arguments \<Rightarrow> construct list" where
  "constructs_arguments a =
     concat (map constructs_arg (posonlyargs a)) @ concat (map constructs_arg (args a))
     @ (case vararg a of None \<Rightarrow> [] | Some x \<Rightarrow> constructs_arg x)
     @ concat (map constructs_arg (kwonlyargs a)) @ concat (map constructs_opt (kw_defaults a))
     @ (case kwarg a of None \<Rightarrow> [] | Some x \<Rightarrow> constructs_arg x)
     @ concat (map constructs_expr (defaults a))"

fun constructs_keyword :: "keyword \<Rightarrow> construct list" where
  "constructs_keyword (Keyword k v) = constructs_expr v"

fun constructs_withitem :: "withitem \<Rightarrow> construct list" where
  "constructs_withitem (Withitem context_expr optional_vars) =
     constructs_expr context_expr @ constructs_opt optional_vars"

fun constructs_stmt :: "stmt \<Rightarrow> construct list"
  and constructs_excepthandler :: "excepthandler \<Rightarrow> construct list"
  and constructs_match_case :: "match_case \<Rightarrow> construct list" where
  "constructs_stmt (FunctionDef n a b d r tp l el) =
     constructs_arguments a @ concat (map constructs_stmt b)
     @ concat (map constructs_expr d) @ constructs_opt r @ concat (map constructs_expr tp)"
| "constructs_stmt (AsyncFunctionDef n a b d r tp l el) =
     constructs_arguments a @ concat (map constructs_stmt b)
     @ concat (map constructs_expr d) @ constructs_opt r @ concat (map constructs_expr tp)"
| "constructs_stmt (ClassDef n bs ks b d tp l el) =
     concat (map constructs_expr bs) @ concat (map constructs_keyword ks)
     @ concat (map constructs_stmt b) @ concat (map constructs_expr d)
     @ concat (map constructs_expr tp)"
| "constructs_stmt (Import ns l) = []"
| "constructs_stmt (ImportFrom m ns lv l) = []"
| "constructs_stmt (If test b orelse) =
     Conditional # constructs_expr test @ concat (map constructs_stmt b)
     @ concat (map constructs_stmt orelse)"
| "constructs_stmt (While test b orelse) =
     Loop # constructs_expr test @ concat (map constructs_stmt b)
     @ concat (map constructs_stmt orelse)"
| "constructs_stmt (For t i b orelse) =
     Loop # constructs_expr t @ constructs_expr i @ concat (map constructs_stmt b)
     @ concat (map constructs_stmt orelse)"
| "constructs_stmt (AsyncFor t i b orelse) =
     Loop # constructs_expr t @ constructs_expr i @ concat (map constructs_stmt b)
     @ concat (map constructs_stmt orelse)"
| "constructs_stmt (With items b) =
     WithBlock # concat (map constructs_withitem items) @ concat (map constructs_stmt b)"
| "constructs_stmt (AsyncWith items b) =
     WithBlock # concat (map constructs_withitem items) @ concat (map constructs_stmt b)"
| "constructs_stmt (Try b handlers orelse finalbody) =
     concat (map constructs_stmt b) @ concat (map constructs_excepthandler handlers)
     @ concat (map constructs_stmt orelse) @ concat (map constructs_stmt finalbody)"
| "constructs_stmt (Match subject cases) =
     constructs_expr subject @ concat (map constructs_match_case cases)"
| "constructs_stmt (OtherStmt es) = concat (map constructs_expr es)"
| "constructs_excepthandler (ExceptHandler t n b) =
     Handler # constructs_opt t @ concat (map constructs_stmt b)"
| "constructs_match_case (MatchCase pattern guard b) =
     concat (map constructs_expr pattern) @ constructs_opt guard
     @ concat (map constructs_stmt b)"

section \<open>The declarations of a file by lexical position\<close>

text \<open>
  The records and import entries of a statement, computed without the extractor's state:
  \<open>cls\<close> is the class whose body encloses the statement (\<open>None\<close> outside every class),
  handed down into a class body and nowhere changed; the body of a callable is not
  entered.
\<close>

definition import_records :: "stmt \<Rightarrow> import_info list" where
  "import_records node =
     map (\<lambda>al. \<lparr>i_module = alias_name al,
                 i_name = (if truthy (asname al) then the (asname al) else alias_name al),
                 i_alias = (if truthy (asname al) then the (asname al) else []),
                 i_line = lineno node\<rparr>) (names node)"

definition import_from_records :: "stmt \<Rightarrow> import_info list" where
  "import_from_records node =
     map (\<lambda>al. \<lparr>i_module = (if truthy (from_module node)
                             then the (from_module node) @ ''.'' @ alias_name al
                             else alias_name al),
                 i_name = (if truthy (asname al) then the (asname al) else alias_name al),
                 i_alias = (if truthy (asname al) then the (asname al) else []),
                 i_line = lineno node\<rparr>) (names node)"

fun emitted_nodes :: "pylib \<Rightarrow> string option \<Rightarrow> stmt \<Rightarrow> PythonASTNode list"
  and emitted_nodes_handler :: "pylib \<Rightarrow> string option \<Rightarrow> excepthandler \<Rightarrow> PythonASTNode list"
  and emitted_nodes_case :: "pylib \<Rightarrow> string option \<Rightarrow> match_case \<Rightarrow> PythonASTNode list" where
  "emitted_nodes lib cls (FunctionDef n a b d r tp l el) =
     [func_node lib cls (FunctionDef n a b d r tp l el)]"
| "emitted_nodes lib cls (AsyncFunctionDef n a b d r tp l el) =
     [func_node lib cls (AsyncFunctionDef n a b d r tp l el)]"
| "emitted_nodes lib cls (ClassDef n bs ks b d tp l el) =
     class_node lib (ClassDef n bs ks b d tp l el) # concat (map (emitted_nodes lib (Some n)) b)"
| "emitted_nodes lib cls (Import ns l) = []"
| "emitted_nodes lib cls (ImportFrom m ns lv l) = []"
| "emitted_nodes lib cls (If test b orelse) =
     concat (map (emitted_nodes lib cls) b) @ concat (map (emitted_nodes lib cls) orelse)"
| "emitted_nodes lib cls (While test b orelse) =
     concat (map (emitted_nodes lib cls) b) @ concat (map (emitted_nodes lib cls) orelse)"
| "emitted_nodes lib cls (For t i b orelse) =
     concat (map (emitted_nodes lib cls) b) @ concat (map (emitted_nodes lib cls) orelse)"
| "emitted_nodes lib cls (AsyncFor t i b orelse) =
     concat (map (emitted_nodes lib cls) b) @ concat (map (emitted_nodes lib cls) orelse)"
| "emitted_nodes lib cls (With items b) = concat (map (emitted_nodes lib cls) b)"
| "emitted_nodes lib cls (AsyncWith items b) = concat (map (emitted_nodes lib cls) b)"
| "emitted_nodes lib cls (Try b handlers orelse finalbody) =
     concat (map (emitted_nodes lib cls) b)
     @ concat (map (emitted_nodes_handler lib cls) handlers)
     @ concat (map (emitted_nodes lib cls) orelse)
     @ concat (map (emitted_nodes lib cls) finalbody)"
| "emitted_nodes lib cls (Match subject cases) =
     concat (map (emitted_nodes_case lib cls) cases)"
| "emitted_nodes lib cls (OtherStmt es) = []"
| "emitted_nodes_handler lib cls (ExceptHandler t n b) =
     concat (map (emitted_nodes lib cls) b)"
| "emitted_nodes_case lib cls (MatchCase pattern guard b) =
     concat (map (emitted_nodes lib cls) b)"

fun emitted_imports :: "stmt \<Rightarrow> import_info list"
  and emitted_imports_handler :: "excepthandler \<Rightarrow> import_info list"
  and emitted_imports_case :: "match_case \<Rightarrow> import_info list" where
  "emitted_imports (FunctionDef n a b d r tp l el) = []"
| "emitted_imports (AsyncFunctionDef n a b d r tp l el) = []"
| "emitted_imports (ClassDef n bs ks b d tp l el) = concat (map emitted_imports b)"
| "emitted_imports (Import ns l) = import_records (Import ns l)"
| "emitted_imports (ImportFrom m ns lv l) = import_from_records (ImportFrom m ns lv l)"
| "emitted_imports (If test b orelse) =
     concat (map emitted_imports b) @ concat (map emitted_imports orelse)"
| "emitted_imports (While test b orelse) =
     concat (map emitted_imports b) @ concat (map emitted_imports orelse)"
| "emitted_imports (For t i b orelse) =
     concat (map emitted_imports b) @ concat (map emitted_imports orelse)"
| "emitted_imports (AsyncFor t i b orelse) =
     concat (map emitted_imports b) @ concat (map emitted_imports orelse)"
| "emitted_imports (With items b) = concat (map emitted_imports b)"
| "emitted_imports (AsyncWith items b) = concat (map emitted_imports b)"
| "emitted_imports (Try b handlers orelse finalbody) =
     concat (map emitted_imports b) @ concat (map emitted_imports_handler handlers)
     @ concat (map emitted_imports orelse) @ concat (map emitted_imports finalbody)"
| "emitted_imports (Match subject cases) = concat (map emitted_imports_case cases)"
| "emitted_imports (OtherStmt es) = []"
| "emitted_imports_handler (ExceptHandler t n b) = concat (map emitted_imports b)"
| "emitted_imports_case (MatchCase pattern guard b) = concat (map emitted_imports b)"

text \<open>Appending records and import entries to those the extractor holds.\<close>

definition emits :: "extractor \<Rightarrow> PythonASTNode list \<Rightarrow> import_info list \<Rightarrow> extractor" where
  "emits st ns is = st\<lparr>nodes := nodes st @ ns, import_infos := import_infos st @ is\<rparr>"

section \<open>Lexical structure of a file\<close>

text \<open>
  The callables of a statement that lie outside every callable body, in source order,
  each with its name and the class whose body encloses it (\<open>None\<close> outside every
  class). \<open>encl\<close> is the class enclosing the statement itself.
\<close>

fun lexical_callables :: "string option \<Rightarrow> stmt \<Rightarrow> (string \<times> string option) list"
  and lexical_callables_handler :: "string option \<Rightarrow> excepthandler \<Rightarrow> (string \<times> string option) list"
  and lexical_callables_case :: "string option \<Rightarrow> match_case \<Rightarrow> (string \<times> string option) list" where
  "lexical_callables encl (FunctionDef n a b d r tp l el) = [(n, encl)]"
| "lexical_callables encl (AsyncFunctionDef n a b d r tp l el) = [(n, encl)]"
| "lexical_callables encl (ClassDef n bs ks b d tp l el) =
     concat (map (lexical_callables (Some n)) b)"
| "lexical_callables encl (Import ns l) = []"
| "lexical_callables encl (ImportFrom m ns lv l) = []"
| "lexical_callables encl (If test b orelse) =
     concat (map (lexical_callables encl) b) @ concat (map (lexical_callables encl) orelse)"
| "lexical_callables encl (While test b orelse) =
     concat (map (lexical_callables encl) b) @ concat (map (lexical_callables encl) orelse)"
| "lexical_callables encl (For t i b orelse) =
     concat (map (lexical_callables encl) b) @ concat (map (lexical_callables encl) orelse)"
| "lexical_callables encl (AsyncFor t i b orelse) =
     concat (map (lexical_callables encl) b) @ concat (map (lexical_callables encl) orelse)"
| "lexical_callables encl (With items b) = concat (map (lexical_callables encl) b)"
| "lexical_callables encl (AsyncWith items b) = concat (map (lexical_callables encl) b)"
| "lexical_callables encl (Try b handlers orelse finalbody) =
     concat (map (lexical_callables encl) b)
     @ concat (map (lexical_callables_handler encl) handlers)
     @ concat (map (lexical_callables encl) orelse)
     @ concat (map (lexical_callables encl) finalbody)"
| "lexical_callables encl (Match subject cases) =
     concat (map (lexical_callables_case encl) cases)"
| "lexical_callables encl (OtherStmt es) = []"
| "lexical_callables_handler encl (ExceptHandler t n b) =
     concat (map (lexical_callables encl) b)"
| "lexical_callables_case encl (MatchCase pattern guard b) =
     concat (map (lexical_callables encl) b)"

text \<open>
  The import statements of a statement that lie outside every callable body, in source
  order, and the entries of one import statement: one for each imported name, in the
  order of the statement.
\<close>

fun import_statements :: "stmt \<Rightarrow> stmt list"
  and import_statements_handler :: "excepthandler \<Rightarrow> stmt list"
  and import_statements_case :: "match_case \<Rightarrow> stmt list" where
  "import_statements (FunctionDef n a b d r tp l el) = []"
| "import_statements (AsyncFunctionDef n a b d r tp l el) = []"
| "import_statements (ClassDef n bs ks b d tp l el) = concat (map import_statements b)"
| "import_statements (Import ns l) = [Import ns l]"
| "import_statements (ImportFrom m ns lv l) = [ImportFrom m ns lv l]"
| "import_statements (If test b orelse) =
     concat (map import_statements b) @ concat (map import_statements orelse)"
| "import_statements (While test b orelse) =
     concat (map import_statements b) @ concat (map import_statements orelse)"
| "import_statements (For t i b orelse) =
     concat (map import_statements b) @ concat (map import_statements orelse)"
| "import_statements (AsyncFor t i b orelse) =
     concat (map import_statements b) @ concat (map import_statements orelse)"
| "import_statements (With items b) = concat (map import_statements b)"
| "import_statements (AsyncWith items b) = concat (map import_statements b)"
| "import_statements (Try b handlers orelse finalbody) =
     concat (map import_statements b) @ concat (map import_statements_handler handlers)
     @ concat (map import_statements orelse) @ concat (map import_statements finalbody)"
| "import_statements (Match subject cases) = concat (map import_statements_case cases)"
| "import_statements (OtherStmt es) = []"
| "import_statements_handler (ExceptHandler t n b) = concat (map import_statements b)"
| "import_statements_case (MatchCase pattern guard b) = concat (map import_statements b)"

fun import_entries :: "stmt \<Rightarrow> import_info list" where
  "import_entries (ImportFrom m ns lv l) =
     map (\<lambda>al. \<lparr>i_module = (if truthy m then the m @ ''.'' @ alias_name al
                              else alias_name al),
                 i_name = (if truthy (asname al) then the (asname al) else alias_name al),
                 i_alias = (if truthy (asname al) then the (asname al) else []),
                 i_line = l\<rparr>) ns"
| "import_entries (Import ns l) =
     map (\<lambda>al. \<lparr>i_module = alias_name al,
                 i_name = (if truthy (asname al) then the (asname al) else alias_name al),
                 i_alias = (if truthy (asname al) then the (asname al) else []),
                 i_line = l\<rparr>) ns"
| "import_entries s = []"

definition callable_kind :: "string \<times> string option \<Rightarrow> string \<times> string \<times> string" where
  \<comment> \<open>kind, name and parent of the record of a callable named \<open>nm\<close> whose enclosing class is
      \<open>encl\<close>: a method of that class when there is one (and its name is not empty), a
      function otherwise\<close>
  "callable_kind c =
     (case c of (nm, encl) \<Rightarrow>
        if truthy encl then (''method'', nm, the encl) else (''function'', nm, []))"

definition callable_triples :: "PythonASTNode list \<Rightarrow> (string \<times> string \<times> string) list" where
  \<comment> \<open>kind, name and parent of the records that are not class records\<close>
  "callable_triples ns =
     map (\<lambda>n. (node_type n, node_name n, parent n)) (filter (\<lambda>n. node_type n \<noteq> ''class'') ns)"

text \<open>The same statement with the body of every callable emptied.\<close>

fun erase_bodies :: "stmt \<Rightarrow> stmt"
  and erase_bodies_handler :: "excepthandler \<Rightarrow> excepthandler"
  and erase_bodies_case :: "match_case \<Rightarrow> match_case" where
  "erase_bodies (FunctionDef n a b d r tp l el) = FunctionDef n a [] d r tp l el"
| "erase_bodies (AsyncFunctionDef n a b d r tp l el) = AsyncFunctionDef n a [] d r tp l el"
| "erase_bodies (ClassDef n bs ks b d tp l el) = ClassDef n bs ks (map erase_bodies b) d tp l el"
| "erase_bodies (Import ns l) = Import ns l"
| "erase_bodies (ImportFrom m ns lv l) = ImportFrom m ns lv l"
| "erase_bodies (If test b orelse) = If test (map erase_bodies b) (map erase_bodies orelse)"
| "erase_bodies (While test b orelse) = While test (map erase_bodies b) (map erase_bodies orelse)"
| "erase_bodies (For t i b orelse) = For t i (map erase_bodies b) (map erase_bodies orelse)"
| "erase_bodies (AsyncFor t i b orelse) =
     AsyncFor t i (map erase_bodies b) (map erase_bodies orelse)"
| "erase_bodies (With items b) = With items (map erase_bodies b)"
| "erase_bodies (AsyncWith items b) = AsyncWith items (map erase_bodies b)"
| "erase_bodies (Try b handlers orelse finalbody) =
     Try (map erase_bodies b) (map erase_bodies_handler handlers)
       (map erase_bodies orelse) (map erase_bodies finalbody)"
| "erase_bodies (Match subject cases) = Match subject (map erase_bodies_case cases)"
| "erase_bodies (OtherStmt es) = OtherStmt es"
| "erase_bodies_handler (ExceptHandler t n b) = ExceptHandler t n (map erase_bodies b)"
| "erase_bodies_case (MatchCase pattern guard b) = MatchCase pattern guard (map erase_bodies b)"

definition declared :: "PythonASTNode \<Rightarrow> PythonASTNode" where
  \<comment> \<open>a record without what is computed from the inside of the declaration\<close>
  "declared n = n\<lparr>end_line := 0, cyclomatic_complexity := 0\<rparr>"


definition tree_constructs :: "stmt list \<Rightarrow> construct list" where
  "tree_constructs tree = concat (map constructs_stmt tree)"

definition extracted_nodes :: "pylib \<Rightarrow> stmt list \<Rightarrow> PythonASTNode list" where
  \<comment> \<open>the records the extractor holds after \<^verbatim>\<open>self.visit(tree)\<close> on a fresh extractor\<close>
  "extracted_nodes lib tree = nodes (fold (visit lib) tree (new_extractor [] []))"

definition within :: "pylib \<Rightarrow> construct set \<Rightarrow> PythonASTNode \<Rightarrow> bool" where
  \<comment> \<open>a class record, or the record of a callable whose counted constructs lie in \<open>K\<close>\<close>
  "within lib K rec \<longleftrightarrow>
     (\<exists>c. rec = class_node lib c) \<or>
     (\<exists>cls f. rec = func_node lib cls f \<and> set (constructs_stmt f) \<subseteq> K)"

section \<open>Example inputs\<close>

definition no_arguments :: arguments where
  "no_arguments =
     \<lparr>posonlyargs = [], args = [], vararg = None, kwonlyargs = [], kw_defaults = [],
      kwarg = None, defaults = []\<rparr>"

definition plain_arguments :: "string list \<Rightarrow> arguments" where
  \<comment> \<open>positional parameters without annotations and without defaults\<close>
  "plain_arguments ns = no_arguments\<lparr>args := map (\<lambda>n. \<lparr>arg = n, annotation = None\<rparr>) ns\<rparr>"

definition test_lib :: "stmt list \<Rightarrow> pylib" where
  \<comment> \<open>a library in which every file can be read and parses to \<open>tree\<close>\<close>
  "test_lib tree =
     \<lparr>open_read = (\<lambda>path. Inr ''source text''), ast_parse = (\<lambda>src path. Inr tree),
      ast_unparse = (\<lambda>e. None), ast_walk_linenos = (\<lambda>node. []),
      traversal_fault = None, serialization_fault = None\<rparr>"

definition syntax_error_lib :: pylib where
  \<comment> \<open>a library in which every file can be read and no file parses\<close>
  "syntax_error_lib = (test_lib [])\<lparr>ast_parse := (\<lambda>src path. Inl SyntaxError)\<rparr>"

definition unreadable_lib :: pylib where
  \<comment> \<open>a library in which no file can be opened\<close>
  "unreadable_lib = (test_lib [])\<lparr>open_read := (\<lambda>path. Inl OtherException)\<rparr>"

definition parse_fault_lib :: pylib where
  \<comment> \<open>a library in which \<^verbatim>\<open>ast.parse\<close> raises an exception that is not a \<^verbatim>\<open>SyntaxError\<close>\<close>
  "parse_fault_lib = (test_lib [])\<lparr>ast_parse := (\<lambda>src path. Inl OtherException)\<rparr>"

definition traversal_fault_lib :: pylib where
  \<comment> \<open>a library in which the interpreter gives up during the traversal\<close>
  "traversal_fault_lib = (test_lib [])\<lparr>traversal_fault := Some OtherException\<rparr>"

definition print_fault_lib :: pylib where
  \<comment> \<open>a library in which printing the result fails\<close>
  "print_fault_lib = (test_lib [])\<lparr>serialization_fault := Some OtherException\<rparr>"

text \<open>The tree of \<^verbatim>\<open>analysis/python/testdata/calculator.py\<close>.\<close>

definition calculator_init :: stmt where
  "calculator_init =
     FunctionDef ''__init__'' (plain_arguments [''self''])
       [OtherStmt [Attribute (Name ''self'') ''value'', Constant ''0'']] [] None [] 2 (Some 3)"

definition calculator_add :: stmt where
  "calculator_add =
     FunctionDef ''add'' (plain_arguments [''self'', ''x''])
       [If (OtherExpr [Name ''x'', Constant ''0''])
          [OtherStmt [Attribute (Name ''self'') ''value'', Name ''x'']]
          [OtherStmt [Attribute (Name ''self'') ''value'', OtherExpr [Name ''abs'', Name ''x'']]],
        OtherStmt [Attribute (Name ''self'') ''value'']]
       [] None [] 5 (Some 10)"

definition calculator_multiply :: stmt where
  "calculator_multiply =
     FunctionDef ''multiply'' (plain_arguments [''self'', ''x'', ''y''])
       [OtherStmt [Name ''result'', OtherExpr [Name ''x'', Name ''y'']],
        For (Name ''i'') (OtherExpr [Name ''range'', Name ''y''])
          [If (OtherExpr [OtherExpr [Name ''i'', Constant ''2''], Constant ''0''])
             [OtherStmt [Name ''result'', Name ''i'']] []]
          [],
        OtherStmt [Name ''result'']]
       [] None [] 12 (Some 17)"

definition calculator_tree :: "stmt list" where
  "calculator_tree =
     [ClassDef ''Calculator'' [] [] [calculator_init, calculator_add, calculator_multiply]
        [] [] 1 (Some 17),
      FunctionDef ''main'' no_arguments
        [OtherStmt [Name ''calc'', OtherExpr [Name ''Calculator'']],
         OtherStmt [OtherExpr [Attribute (Name ''calc'') ''add'', Constant ''10'']],
         OtherStmt [OtherExpr [Name ''print'',
           OtherExpr [Attribute (Name ''calc'') ''multiply'', Constant ''5'', Constant ''3'']]]]
        [] None [] 20 (Some 23),
      If (OtherExpr [Name ''__name__'', Constant ''__main__''])
        [OtherStmt [OtherExpr [Name ''main'']]] []]"

text \<open>
  \<^verbatim>\<open>class Outer:\<close> / \<^verbatim>\<open>    class Inner:\<close> / \<^verbatim>\<open>        def run(self): pass\<close>
\<close>

definition nested_class_tree :: "stmt list" where
  "nested_class_tree =
     [ClassDef ''Outer'' [] []
        [ClassDef ''Inner'' [] []
           [FunctionDef ''run'' (plain_arguments [''self'']) [OtherStmt []] [] None [] 3 (Some 3)]
           [] [] 2 (Some 3)]
        [] [] 1 (Some 3)]"

text \<open>
  \<^verbatim>\<open>def outer():\<close> / \<^verbatim>\<open>    def inner():\<close> / \<^verbatim>\<open>        if flag: pass\<close>, and the same with
  \<^verbatim>\<open>pass\<close> as the body of \<^verbatim>\<open>inner\<close>.
\<close>

definition outer_with_branching_inner :: stmt where
  "outer_with_branching_inner =
     FunctionDef ''outer'' no_arguments
       [FunctionDef ''inner'' no_arguments [If (Name ''flag'') [OtherStmt []] []] [] None []
          2 (Some 3)]
       [] None [] 1 (Some 3)"

definition outer_with_plain_inner :: stmt where
  "outer_with_plain_inner =
     FunctionDef ''outer'' no_arguments
       [FunctionDef ''inner'' no_arguments [OtherStmt []] [] None [] 2 (Some 3)]
       [] None [] 1 (Some 3)"

text \<open>\<^verbatim>\<open>@register([h for h in hooks if h])\<close> / \<^verbatim>\<open>def handler(): pass\<close>\<close>

definition decorated_handler :: stmt where
  "decorated_handler =
     FunctionDef ''handler'' no_arguments [OtherStmt []]
       [OtherExpr [Name ''register'',
          ListComp (Name ''h'') [Comprehension (Name ''h'') (Name ''hooks'') [Name ''h'']]]]
       None [] 2 (Some 3)"


text \<open>\<^verbatim>\<open>def connect(host, *, timeout): pass\<close>\<close>

definition connect_keyword_only :: stmt where
  "connect_keyword_only =
     FunctionDef ''connect''
       ((plain_arguments [''host''])\<lparr>kwonlyargs := [\<lparr>arg = ''timeout'', annotation = None\<rparr>],
                                       kw_defaults := [None]\<rparr>)
       [OtherStmt []] [] None [] 1 (Some 1)"

text \<open>\<^verbatim>\<open>def log(level: int, *items: str, **fields) -> None: pass\<close>\<close>

definition log_variadic :: stmt where
  "log_variadic =
     FunctionDef ''log''
       (no_arguments\<lparr>args := [\<lparr>arg = ''level'', annotation = Some (Name ''int'')\<rparr>],
                     vararg := Some \<lparr>arg = ''items'', annotation = Some (Name ''str'')\<rparr>,
                     kwarg := Some \<lparr>arg = ''fields'', annotation = None\<rparr>\<rparr>)
       [OtherStmt []] [] (Some (Constant ''None'')) [] 1 (Some 1)"

text \<open>\<^verbatim>\<open>def first[T: a or b](x): pass\<close>, as Python 3.12 parses it\<close>

definition generic_with_bound :: stmt where
  "generic_with_bound =
     FunctionDef ''first'' (plain_arguments [''x'']) [OtherStmt []] [] None
       [BoolOp Or [Name ''a'', Name ''b'']] 1 (Some 1)"

text \<open>
  \<^verbatim>\<open>def load(path):\<close> / \<^verbatim>\<open>    from json import loads\<close> / \<^verbatim>\<open>    return loads(path)\<close>
\<close>

definition local_import_tree :: "stmt list" where
  "local_import_tree =
     [FunctionDef ''load'' (plain_arguments [''path''])
        [ImportFrom (Some ''json'') [Alias ''loads'' None] 0 2,
         OtherStmt [OtherExpr [Name ''loads'', Name ''path'']]]
        [] None [] 1 (Some 3)]"

text \<open>
  A file with a from-import at top level (line 1), in a class body (line 3, relative,
  with an alias), in a method body (line 5), and in both branches of a \<^verbatim>\<open>try\<close> statement
  (lines 7 and 9).
\<close>

definition import_tree :: "stmt list" where
  "import_tree =
     [ImportFrom (Some ''typing'') [Alias ''Optional'' None, Alias ''Dict'' None] 0 1,
      ClassDef ''Service'' [] []
        [ImportFrom (Some ''models'') [Alias ''User'' (Some ''U'')] 1 3,
         FunctionDef ''load'' (plain_arguments [''self''])
           [ImportFrom (Some ''json'') [Alias ''loads'' None] 0 5] [] None [] 4 (Some 5)]
        [] [] 2 (Some 5),
      Try [ImportFrom (Some ''fast'') [Alias ''parse'' None] 0 7]
        [ExceptHandler (Some (Name ''ImportError'')) None
           [ImportFrom (Some ''slow'') [Alias ''parse'' None] 0 9]]
        [] []]"

definition declared_parameters :: "arguments \<Rightarrow> arg list" where
  \<comment> \<open>every parameter a parameter list declares, in source order\<close>
  "declared_parameters a =
     posonlyargs a @ args a @ (case vararg a of None \<Rightarrow> [] | Some x \<Rightarrow> [x])
     @ kwonlyargs a @ (case kwarg a of None \<Rightarrow> [] | Some x \<Rightarrow> [x])"

section \<open>The calculator adds the increments of the constructs it visits\<close>

lemma weight_simps [simp]:
  "weight [] = 0" "weight (k # ks) = increment k + weight ks"
  "weight (ks @ ks') = weight ks + weight ks'"
  by (simp_all add: weight_def)

lemma weight_concat: "weight (concat (map g xs)) = sum_list (map (\<lambda>x. weight (g x)) xs)"
  by (induction xs) simp_all

lemma weight_replicate_Filter [simp]: "weight (replicate n Filter) = int n"
  by (induction n) simp_all

lemma fold_adds:
  fixes c :: int
  assumes "\<And>x c. x \<in> set xs \<Longrightarrow> f x c = c + w x"
  shows "fold f xs c = c + sum_list (map w xs)"
  using assms by (induction xs arbitrary: c) simp_all

lemma count_filters_weight: "count_filters gs c = c + weight (filters gs)"
  unfolding count_filters_def filters_def
  by (induction gs arbitrary: c) simp_all

lemma cc_expr_weight:
  "cc_expr e c = c + weight (constructs_expr e)"
  "cc_comprehension g c = c + weight (constructs_comprehension g)"
proof (induction e and g arbitrary: c and c)
  case (BoolOp op vs)
  have "fold cc_expr vs d = d + sum_list (map (\<lambda>x. weight (constructs_expr x)) vs)" for d
    by (rule fold_adds) (simp add: BoolOp)
  then show ?case by (cases op) (simp_all add: weight_concat)
next
  case (ListComp elt gs)
  have "fold cc_comprehension gs d
          = d + sum_list (map (\<lambda>x. weight (constructs_comprehension x)) gs)" for d
    by (rule fold_adds) (simp add: ListComp)
  then show ?case by (simp add: ListComp weight_concat count_filters_weight)
next
  case (SetComp elt gs)
  have "fold cc_comprehension gs d
          = d + sum_list (map (\<lambda>x. weight (constructs_comprehension x)) gs)" for d
    by (rule fold_adds) (simp add: SetComp)
  then show ?case by (simp add: SetComp weight_concat count_filters_weight)
next
  case (DictComp k v gs)
  have "fold cc_comprehension gs d
          = d + sum_list (map (\<lambda>x. weight (constructs_comprehension x)) gs)" for d
    by (rule fold_adds) (simp add: DictComp)
  then show ?case by (simp add: DictComp weight_concat count_filters_weight)
next
  case (GeneratorExp elt gs)
  have "fold cc_comprehension gs d
          = d + sum_list (map (\<lambda>x. weight (constructs_comprehension x)) gs)" for d
    by (rule fold_adds) (simp add: GeneratorExp)
  then show ?case by (simp add: GeneratorExp weight_concat count_filters_weight)
next
  case (OtherExpr es)
  have "fold cc_expr es d = d + sum_list (map (\<lambda>x. weight (constructs_expr x)) es)" for d
    by (rule fold_adds) (simp add: OtherExpr)
  then show ?case by (simp add: weight_concat)
next
  case (Comprehension t i conds)
  have "fold cc_expr conds d = d + sum_list (map (\<lambda>x. weight (constructs_expr x)) conds)" for d
    by (rule fold_adds) (simp add: Comprehension)
  then show ?case by (simp add: Comprehension weight_concat)
qed simp_all


lemma cc_opt_weight: "cc_opt e c = c + weight (constructs_opt e)"
  by (cases e) (simp_all add: cc_opt_def constructs_opt_def cc_expr_weight)

lemma cc_arg_weight: "cc_arg a c = c + weight (constructs_arg a)"
  by (simp add: cc_arg_def constructs_arg_def cc_opt_weight)

lemma cc_arg_opt_weight:
  "cc_arg_opt a c = c + weight (case a of None \<Rightarrow> [] | Some x \<Rightarrow> constructs_arg x)"
  by (cases a) (simp_all add: cc_arg_opt_def cc_arg_weight)

lemma fold_cc_expr_weight:
  "fold cc_expr es c = c + weight (concat (map constructs_expr es))"
  unfolding weight_concat by (rule fold_adds) (rule cc_expr_weight)

lemma fold_cc_arg_weight:
  "fold cc_arg xs c = c + weight (concat (map constructs_arg xs))"
  unfolding weight_concat by (rule fold_adds) (rule cc_arg_weight)

lemma fold_cc_opt_weight:
  "fold cc_opt xs c = c + weight (concat (map constructs_opt xs))"
  unfolding weight_concat by (rule fold_adds) (rule cc_opt_weight)

lemma cc_arguments_weight: "cc_arguments a c = c + weight (constructs_arguments a)"
  by (simp add: cc_arguments_def constructs_arguments_def fold_cc_expr_weight
      fold_cc_arg_weight fold_cc_opt_weight cc_arg_opt_weight)

lemma cc_keyword_weight: "cc_keyword k c = c + weight (constructs_keyword k)"
  by (cases k) (simp add: cc_expr_weight)

lemma cc_withitem_weight: "cc_withitem w c = c + weight (constructs_withitem w)"
  by (cases w) (simp add: cc_expr_weight cc_opt_weight)

lemma fold_cc_keyword_weight:
  "fold cc_keyword xs c = c + weight (concat (map constructs_keyword xs))"
  unfolding weight_concat by (rule fold_adds) (rule cc_keyword_weight)

lemma fold_cc_withitem_weight:
  "fold cc_withitem xs c = c + weight (concat (map constructs_withitem xs))"
  unfolding weight_concat by (rule fold_adds) (rule cc_withitem_weight)

lemma fold_weight:
  fixes c :: int
  assumes "\<And>x c. x \<in> set xs \<Longrightarrow> f x c = c + weight (g x)"
  shows "fold f xs c = c + weight (concat (map g xs))"
  unfolding weight_concat using assms by (rule fold_adds)

lemmas cc_header_weight =
  cc_expr_weight cc_opt_weight cc_arguments_weight fold_cc_expr_weight
  fold_cc_keyword_weight fold_cc_withitem_weight

lemma cc_stmt_weight:
  "cc_stmt s c = c + weight (constructs_stmt s)"
  "cc_excepthandler h c = c + weight (constructs_excepthandler h)"
  "cc_match_case m c = c + weight (constructs_match_case m)"
proof (induction s and h and m arbitrary: c and c and c)
  case (FunctionDef n a b d r tp l el)
  have "fold cc_stmt b k = k + weight (concat (map constructs_stmt b))" for k
    by (rule fold_weight) (rule FunctionDef)
  then show ?case by (simp add: cc_header_weight)
next
  case (AsyncFunctionDef n a b d r tp l el)
  have "fold cc_stmt b k = k + weight (concat (map constructs_stmt b))" for k
    by (rule fold_weight) (rule AsyncFunctionDef)
  then show ?case by (simp add: cc_header_weight)
next
  case (ClassDef n bs ks b d tp l el)
  have "fold cc_stmt b k = k + weight (concat (map constructs_stmt b))" for k
    by (rule fold_weight) (rule ClassDef)
  then show ?case by (simp add: cc_header_weight)
next
  case (If test b orelse)
  have "fold cc_stmt b k = k + weight (concat (map constructs_stmt b))"
       "fold cc_stmt orelse k = k + weight (concat (map constructs_stmt orelse))" for k
    by (rule fold_weight, simp add: If)+
  then show ?case by (simp add: cc_header_weight)
next
  case (While test b orelse)
  have "fold cc_stmt b k = k + weight (concat (map constructs_stmt b))"
       "fold cc_stmt orelse k = k + weight (concat (map constructs_stmt orelse))" for k
    by (rule fold_weight, simp add: While)+
  then show ?case by (simp add: cc_header_weight)
next
  case (For t i b orelse)
  have "fold cc_stmt b k = k + weight (concat (map constructs_stmt b))"
       "fold cc_stmt orelse k = k + weight (concat (map constructs_stmt orelse))" for k
    by (rule fold_weight, simp add: For)+
  then show ?case by (simp add: cc_header_weight)
next
  case (AsyncFor t i b orelse)
  have "fold cc_stmt b k = k + weight (concat (map constructs_stmt b))"
       "fold cc_stmt orelse k = k + weight (concat (map constructs_stmt orelse))" for k
    by (rule fold_weight, simp add: AsyncFor)+
  then show ?case by (simp add: cc_header_weight)
next
  case (With items b)
  have "fold cc_stmt b k = k + weight (concat (map constructs_stmt b))" for k
    by (rule fold_weight) (rule With)
  then show ?case by (simp add: cc_header_weight)
next
  case (AsyncWith items b)
  have "fold cc_stmt b k = k + weight (concat (map constructs_stmt b))" for k
    by (rule fold_weight) (rule AsyncWith)
  then show ?case by (simp add: cc_header_weight)
next
  case (Try b handlers orelse finalbody)
  have "fold cc_stmt b k = k + weight (concat (map constructs_stmt b))"
       "fold cc_excepthandler handlers k
          = k + weight (concat (map constructs_excepthandler handlers))"
       "fold cc_stmt orelse k = k + weight (concat (map constructs_stmt orelse))"
       "fold cc_stmt finalbody k = k + weight (concat (map constructs_stmt finalbody))" for k
    by (rule fold_weight, simp add: Try)+
  then show ?case by simp
next
  case (Match subject cases)
  have "fold cc_match_case cases k = k + weight (concat (map constructs_match_case cases))" for k
    by (rule fold_weight) (rule Match)
  then show ?case by (simp add: cc_header_weight)
next
  case (ExceptHandler t n b)
  have "fold cc_stmt b k = k + weight (concat (map constructs_stmt b))" for k
    by (rule fold_weight) (rule ExceptHandler)
  then show ?case by (simp add: cc_header_weight)
next
  case (MatchCase pattern guard b)
  have "fold cc_stmt b k = k + weight (concat (map constructs_stmt b))" for k
    by (rule fold_weight) (rule MatchCase)
  then show ?case by (simp add: cc_header_weight)
qed (simp_all add: cc_header_weight)

section \<open>The visitor emits the declarations by lexical position\<close>

lemma fold_append_import:
  "fold (\<lambda>al self. self\<lparr>import_infos := import_infos self @ [f al]\<rparr>) ns st
     = st\<lparr>import_infos := import_infos st @ map f ns\<rparr>"
  by (induction ns arbitrary: st) simp_all

lemma truthy_module: "(if truthy m then the m else []) \<noteq> [] \<longleftrightarrow> truthy m"
  by (cases m) simp_all

lemma visit_Import_eq:
  "visit_Import node st = st\<lparr>import_infos := import_infos st @ import_records node\<rparr>"
  by (simp add: visit_Import_def import_records_def fold_append_import)

lemma visit_ImportFrom_eq:
  "visit_ImportFrom node st = st\<lparr>import_infos := import_infos st @ import_from_records node\<rparr>"
  by (simp add: visit_ImportFrom_def import_from_records_def Let_def fold_append_import
      truthy_module)

lemma fold_emits:
  assumes "\<And>x st. x \<in> set xs \<Longrightarrow> f x st = emits st (g (current_class st) x) (h x)"
  shows "fold f xs st = emits st (concat (map (g (current_class st)) xs)) (concat (map h xs))"
  using assms by (induction xs arbitrary: st) (simp_all add: emits_def)

lemma emits_emits [simp]:
  "emits (emits st ns is) ns' is' = emits st (ns @ ns') (is @ is')"
  "current_class (emits st ns is) = current_class st"
  "emits st [] [] = st"
  by (simp_all add: emits_def)

lemma visit_emits:
  "visit lib s st = emits st (emitted_nodes lib (current_class st) s) (emitted_imports s)"
  "visit_excepthandler lib h st
     = emits st (emitted_nodes_handler lib (current_class st) h) (emitted_imports_handler h)"
  "visit_match_case lib m st
     = emits st (emitted_nodes_case lib (current_class st) m) (emitted_imports_case m)"
proof (induction s and h and m arbitrary: st and st and st)
  case (FunctionDef n a b d r tp l el)
  show ?case by (simp add: visit_FunctionDef_def emits_def)
next
  case (AsyncFunctionDef n a b d r tp l el)
  show ?case by (simp add: visit_FunctionDef_def emits_def)
next
  case (ClassDef n bs ks b d tp l el)
  have "fold (visit lib) b st' = emits st' (concat (map (emitted_nodes lib (current_class st')) b))
          (concat (map emitted_imports b))" for st'
    by (rule fold_emits) (simp add: ClassDef)
  then show ?case by (simp add: emits_def Let_def)
next
  case (Import ns l)
  show ?case by (simp add: visit_Import_eq emits_def)
next
  case (ImportFrom m ns lv l)
  show ?case by (simp add: visit_ImportFrom_eq emits_def)
next
  case (If test b orelse)
  have "fold (visit lib) b st' = emits st' (concat (map (emitted_nodes lib (current_class st')) b))
          (concat (map emitted_imports b))"
       "fold (visit lib) orelse st' = emits st' (concat (map (emitted_nodes lib (current_class st')) orelse))
          (concat (map emitted_imports orelse))" for st'
    by (rule fold_emits, simp add: If)+
  then show ?case by simp
next
  case (While test b orelse)
  have "fold (visit lib) b st' = emits st' (concat (map (emitted_nodes lib (current_class st')) b))
          (concat (map emitted_imports b))"
       "fold (visit lib) orelse st' = emits st' (concat (map (emitted_nodes lib (current_class st')) orelse))
          (concat (map emitted_imports orelse))" for st'
    by (rule fold_emits, simp add: While)+
  then show ?case by simp
next
  case (For t i b orelse)
  have "fold (visit lib) b st' = emits st' (concat (map (emitted_nodes lib (current_class st')) b))
          (concat (map emitted_imports b))"
       "fold (visit lib) orelse st' = emits st' (concat (map (emitted_nodes lib (current_class st')) orelse))
          (concat (map emitted_imports orelse))" for st'
    by (rule fold_emits, simp add: For)+
  then show ?case by simp
next
  case (AsyncFor t i b orelse)
  have "fold (visit lib) b st' = emits st' (concat (map (emitted_nodes lib (current_class st')) b))
          (concat (map emitted_imports b))"
       "fold (visit lib) orelse st' = emits st' (concat (map (emitted_nodes lib (current_class st')) orelse))
          (concat (map emitted_imports orelse))" for st'
    by (rule fold_emits, simp add: AsyncFor)+
  then show ?case by simp
next
  case (With items b)
  have "fold (visit lib) b st' = emits st' (concat (map (emitted_nodes lib (current_class st')) b))
          (concat (map emitted_imports b))" for st'
    by (rule fold_emits) (simp add: With)
  then show ?case by simp
next
  case (AsyncWith items b)
  have "fold (visit lib) b st' = emits st' (concat (map (emitted_nodes lib (current_class st')) b))
          (concat (map emitted_imports b))" for st'
    by (rule fold_emits) (simp add: AsyncWith)
  then show ?case by simp
next
  case (Try b handlers orelse finalbody)
  have "fold (visit lib) b st' = emits st' (concat (map (emitted_nodes lib (current_class st')) b))
          (concat (map emitted_imports b))"
       "fold (visit_excepthandler lib) handlers st'
          = emits st' (concat (map (emitted_nodes_handler lib (current_class st')) handlers))
              (concat (map emitted_imports_handler handlers))"
       "fold (visit lib) orelse st' = emits st' (concat (map (emitted_nodes lib (current_class st')) orelse))
          (concat (map emitted_imports orelse))"
       "fold (visit lib) finalbody st'
          = emits st' (concat (map (emitted_nodes lib (current_class st')) finalbody))
              (concat (map emitted_imports finalbody))" for st'
    by (rule fold_emits, simp add: Try)+
  then show ?case by simp
next
  case (Match subject cases)
  have "fold (visit_match_case lib) cases st'
          = emits st' (concat (map (emitted_nodes_case lib (current_class st')) cases))
              (concat (map emitted_imports_case cases))" for st'
    by (rule fold_emits) (simp add: Match)
  then show ?case by simp
next
  case (OtherStmt es)
  show ?case by simp
next
  case (ExceptHandler t n b)
  have "fold (visit lib) b st' = emits st' (concat (map (emitted_nodes lib (current_class st')) b))
          (concat (map emitted_imports b))" for st'
    by (rule fold_emits) (simp add: ExceptHandler)
  then show ?case by simp
next
  case (MatchCase pattern guard b)
  have "fold (visit lib) b st' = emits st' (concat (map (emitted_nodes lib (current_class st')) b))
          (concat (map emitted_imports b))" for st'
    by (rule fold_emits) (simp add: MatchCase)
  then show ?case by simp
qed

lemma fold_visit_emits:
  "fold (visit lib) tree st
     = emits st (concat (map (emitted_nodes lib (current_class st)) tree))
         (concat (map emitted_imports tree))"
  by (rule fold_emits) (rule visit_emits)

lemma nodes_emits [simp]: "nodes (emits st ns is) = nodes st @ ns"
  and import_infos_emits [simp]: "import_infos (emits st ns is) = import_infos st @ is"
  and relationships_emits [simp]: "relationships (emits st ns is) = relationships st"
  and file_path_emits [simp]: "file_path (emits st ns is) = file_path st"
  by (simp_all add: emits_def)

lemma func_node_fields [simp]:
  "node_type (func_node lib cls node) = (if truthy cls then ''method'' else ''function'')"
  "node_name (func_node lib cls node) = name node"
  "start_line (func_node lib cls node) = lineno node"
  "parent (func_node lib cls node) = (if truthy cls then the cls else [])"
  "cyclomatic_complexity (func_node lib cls node) = calculate_complexity node"
  "base_classes (func_node lib cls node) = []"
  by (simp_all add: func_node_def new_PythonASTNode_def Let_def split: option.splits)

lemma class_node_fields [simp]:
  "node_type (class_node lib node) = ''class''"
  "node_name (class_node lib node) = name node"
  "start_line (class_node lib node) = lineno node"
  "parent (class_node lib node) = []"
  "parameters (class_node lib node) = []"
  "return_values (class_node lib node) = []"
  "parameter_count (class_node lib node) = 0"
  "return_count (class_node lib node) = 0"
  "cyclomatic_complexity (class_node lib node) = 1"
  by (simp_all add: class_node_def new_PythonASTNode_def Let_def)

lemma within_mono: "within lib K rec \<Longrightarrow> K \<subseteq> K' \<Longrightarrow> within lib K' rec"
  unfolding within_def by blast

lemma within_concat:
  assumes "rec \<in> set (concat (map g xs))"
    and "\<And>x. x \<in> set xs \<Longrightarrow> rec \<in> set (g x) \<Longrightarrow> within lib (set (k x)) rec"
    and "set (concat (map k xs)) \<subseteq> K"
  shows "within lib K rec"
proof -
  from assms(1) obtain x where x: "x \<in> set xs" "rec \<in> set (g x)" by auto
  then have "within lib (set (k x)) rec" by (rule assms(2))
  moreover have "set (k x) \<subseteq> K" using x(1) assms(3) by auto
  ultimately show ?thesis by (rule within_mono)
qed

lemma emitted_nodes_within:
  "rec \<in> set (emitted_nodes lib cls s) \<Longrightarrow> within lib (set (constructs_stmt s)) rec"
  "rec \<in> set (emitted_nodes_handler lib cls h) \<Longrightarrow> within lib (set (constructs_excepthandler h)) rec"
  "rec \<in> set (emitted_nodes_case lib cls m) \<Longrightarrow> within lib (set (constructs_match_case m)) rec"
proof (induction s and h and m arbitrary: cls and cls and cls)
  case (FunctionDef n a b d r tp l el)
  then have "rec = func_node lib cls (FunctionDef n a b d r tp l el)" by simp
  then show ?case unfolding within_def by blast
next
  case (AsyncFunctionDef n a b d r tp l el)
  then have "rec = func_node lib cls (AsyncFunctionDef n a b d r tp l el)" by simp
  then show ?case unfolding within_def by blast
next
  case (ClassDef n bs ks b d tp l el)
  from ClassDef.prems consider "rec = class_node lib (ClassDef n bs ks b d tp l el)"
    | "rec \<in> set (concat (map (emitted_nodes lib (Some n)) b))" by auto
  then show ?case
  proof cases
    case 1
    then show ?thesis unfolding within_def by blast
  next
    case 2
    then show ?thesis
      by (rule within_concat[where k = constructs_stmt]) (auto intro: ClassDef.IH)
  qed
next
  case (If test b orelse)
  from If.prems consider "rec \<in> set (concat (map (emitted_nodes lib cls) b))"
    | "rec \<in> set (concat (map (emitted_nodes lib cls) orelse))" by auto
  then show ?case
  proof cases
    case 1
    then show ?thesis
      by (rule within_concat[where k = constructs_stmt]) (auto intro: If.IH)
  next
    case 2
    then show ?thesis
      by (rule within_concat[where k = constructs_stmt]) (auto intro: If.IH)
  qed
next
  case (While test b orelse)
  from While.prems consider "rec \<in> set (concat (map (emitted_nodes lib cls) b))"
    | "rec \<in> set (concat (map (emitted_nodes lib cls) orelse))" by auto
  then show ?case
  proof cases
    case 1
    then show ?thesis
      by (rule within_concat[where k = constructs_stmt]) (auto intro: While.IH)
  next
    case 2
    then show ?thesis
      by (rule within_concat[where k = constructs_stmt]) (auto intro: While.IH)
  qed
next
  case (For t i b orelse)
  from For.prems consider "rec \<in> set (concat (map (emitted_nodes lib cls) b))"
    | "rec \<in> set (concat (map (emitted_nodes lib cls) orelse))" by auto
  then show ?case
  proof cases
    case 1
    then show ?thesis
      by (rule within_concat[where k = constructs_stmt]) (auto intro: For.IH)
  next
    case 2
    then show ?thesis
      by (rule within_concat[where k = constructs_stmt]) (auto intro: For.IH)
  qed
next
  case (AsyncFor t i b orelse)
  from AsyncFor.prems consider "rec \<in> set (concat (map (emitted_nodes lib cls) b))"
    | "rec \<in> set (concat (map (emitted_nodes lib cls) orelse))" by auto
  then show ?case
  proof cases
    case 1
    then show ?thesis
      by (rule within_concat[where k = constructs_stmt]) (auto intro: AsyncFor.IH)
  next
    case 2
    then show ?thesis
      by (rule within_concat[where k = constructs_stmt]) (auto intro: AsyncFor.IH)
  qed
next
  case (With items b)
  from With.prems have "rec \<in> set (concat (map (emitted_nodes lib cls) b))" by simp
  then show ?case
    by (rule within_concat[where k = constructs_stmt]) (auto intro: With.IH)
next
  case (AsyncWith items b)
  from AsyncWith.prems have "rec \<in> set (concat (map (emitted_nodes lib cls) b))" by simp
  then show ?case
    by (rule within_concat[where k = constructs_stmt]) (auto intro: AsyncWith.IH)
next
  case (Try b handlers orelse finalbody)
  from Try.prems consider "rec \<in> set (concat (map (emitted_nodes lib cls) b))"
    | "rec \<in> set (concat (map (emitted_nodes_handler lib cls) handlers))"
    | "rec \<in> set (concat (map (emitted_nodes lib cls) orelse))"
    | "rec \<in> set (concat (map (emitted_nodes lib cls) finalbody))" by auto
  then show ?case
  proof cases
    case 1
    then show ?thesis
      by (rule within_concat[where k = constructs_stmt]) (auto intro: Try.IH)
  next
    case 2
    then show ?thesis
      by (rule within_concat[where k = constructs_excepthandler]) (auto intro: Try.IH)
  next
    case 3
    then show ?thesis
      by (rule within_concat[where k = constructs_stmt]) (auto intro: Try.IH)
  next
    case 4
    then show ?thesis
      by (rule within_concat[where k = constructs_stmt]) (auto intro: Try.IH)
  qed
next
  case (Match subject cases)
  from Match.prems have "rec \<in> set (concat (map (emitted_nodes_case lib cls) cases))" by simp
  then show ?case
    by (rule within_concat[where k = constructs_match_case]) (auto intro: Match.IH)
next
  case (ExceptHandler t n b)
  from ExceptHandler.prems have "rec \<in> set (concat (map (emitted_nodes lib cls) b))" by simp
  then show ?case
    by (rule within_concat[where k = constructs_stmt]) (auto intro: ExceptHandler.IH)
next
  case (MatchCase pattern guard b)
  from MatchCase.prems have "rec \<in> set (concat (map (emitted_nodes lib cls) b))" by simp
  then show ?case
    by (rule within_concat[where k = constructs_stmt]) (auto intro: MatchCase.IH)
qed simp_all

lemma callable_triples_simps [simp]:
  "callable_triples [] = []"
  "callable_triples (xs @ ys) = callable_triples xs @ callable_triples ys"
  "callable_triples (class_node lib c # xs) = callable_triples xs"
  "callable_triples [func_node lib cls f] = [callable_kind (name f, cls)]"
  by (simp_all add: callable_triples_def callable_kind_def)

lemma triples_concat:
  assumes "\<And>x. x \<in> set xs \<Longrightarrow> callable_triples (g x) = map callable_kind (h x)"
  shows "callable_triples (concat (map g xs)) = map callable_kind (concat (map h xs))"
  using assms by (induction xs) simp_all

lemma emitted_nodes_lexical:
  "callable_triples (emitted_nodes lib cls s) = map callable_kind (lexical_callables cls s)"
  "callable_triples (emitted_nodes_handler lib cls h)
     = map callable_kind (lexical_callables_handler cls h)"
  "callable_triples (emitted_nodes_case lib cls m)
     = map callable_kind (lexical_callables_case cls m)"
proof (induction s and h and m arbitrary: cls and cls and cls)
  case (FunctionDef n a b d r tp l el)
  show ?case by simp
next
  case (ClassDef n bs ks b d tp l el)
  then show ?case by (simp add: triples_concat)
next
  case (If test b orelse)
  then show ?case by (simp add: triples_concat)
next
  case (While test b orelse)
  then show ?case by (simp add: triples_concat)
next
  case (For t i b orelse)
  then show ?case by (simp add: triples_concat)
next
  case (AsyncFor t i b orelse)
  then show ?case by (simp add: triples_concat)
next
  case (With items b)
  then show ?case by (simp add: triples_concat)
next
  case (AsyncWith items b)
  then show ?case by (simp add: triples_concat)
next
  case (Try b handlers orelse finalbody)
  then show ?case by (simp add: triples_concat)
next
  case (Match subject cases)
  then show ?case by (simp add: triples_concat)
next
  case (ExceptHandler t n b)
  then show ?case by (simp add: triples_concat)
next
  case (MatchCase pattern guard b)
  then show ?case by (simp add: triples_concat)
qed simp_all

lemma declared_func_node:
  "declared (func_node lib cls (FunctionDef n a [] d r tp l el))
     = declared (func_node lib cls (FunctionDef n a b d r tp l el))"
  "declared (func_node lib cls (AsyncFunctionDef n a [] d r tp l el))
     = declared (func_node lib cls (AsyncFunctionDef n a b d r tp l el))"
  by (simp_all add: declared_def func_node_def new_PythonASTNode_def Let_def
      split: option.splits)

lemma declared_class_node:
  "declared (class_node lib (ClassDef n bs ks b' d tp l el))
     = declared (class_node lib (ClassDef n bs ks b d tp l el))"
  by (simp add: declared_def class_node_def new_PythonASTNode_def Let_def)

lemma declared_concat:
  assumes "\<And>x. x \<in> set xs \<Longrightarrow> map declared (g (e x)) = map declared (g x)"
  shows "map declared (concat (map g (map e xs))) = map declared (concat (map g xs))"
  using assms by (induction xs) simp_all

lemma emitted_nodes_erase_bodies:
  "map declared (emitted_nodes lib cls (erase_bodies s)) = map declared (emitted_nodes lib cls s)"
  "map declared (emitted_nodes_handler lib cls (erase_bodies_handler h))
     = map declared (emitted_nodes_handler lib cls h)"
  "map declared (emitted_nodes_case lib cls (erase_bodies_case m))
     = map declared (emitted_nodes_case lib cls m)"
proof (induction s and h and m arbitrary: cls and cls and cls)
  case (FunctionDef n a b d r tp l el)
  show ?case by (simp add: declared_func_node)
next
  case (AsyncFunctionDef n a b d r tp l el)
  show ?case by (simp add: declared_func_node)
next
  case (ClassDef n bs ks b d tp l el)
  then show ?case by (simp add: declared_concat declared_class_node del: map_map)
next
  case (If test b orelse)
  then show ?case by (simp add: declared_concat declared_class_node del: map_map)
next
  case (While test b orelse)
  then show ?case by (simp add: declared_concat declared_class_node del: map_map)
next
  case (For t i b orelse)
  then show ?case by (simp add: declared_concat declared_class_node del: map_map)
next
  case (AsyncFor t i b orelse)
  then show ?case by (simp add: declared_concat declared_class_node del: map_map)
next
  case (With items b)
  then show ?case by (simp add: declared_concat declared_class_node del: map_map)
next
  case (AsyncWith items b)
  then show ?case by (simp add: declared_concat declared_class_node del: map_map)
next
  case (Try b handlers orelse finalbody)
  then show ?case by (simp add: declared_concat declared_class_node del: map_map)
next
  case (Match subject cases)
  then show ?case by (simp add: declared_concat declared_class_node del: map_map)
next
  case (ExceptHandler t n b)
  then show ?case by (simp add: declared_concat declared_class_node del: map_map)
next
  case (MatchCase pattern guard b)
  then show ?case by (simp add: declared_concat declared_class_node del: map_map)
qed simp_all

section \<open>What a run prints\<close>

lemma node_to_dict_id [simp]: "node_to_dict rec = rec"
  by (simp add: node_to_dict_def)

lemma map_node_to_dict [simp]: "map node_to_dict recs = recs"
  by (induction recs) simp_all

lemma nodes_fold_visit:
  "nodes (fold (visit lib) tree (new_extractor src path))
     = concat (map (emitted_nodes lib None) tree)"
  by (simp add: fold_visit_emits new_extractor_def)

lemma import_infos_fold_visit:
  "import_infos (fold (visit lib) tree (new_extractor src path))
     = concat (map emitted_imports tree)"
  by (simp add: fold_visit_emits new_extractor_def)

lemma extracted_nodes_eq:
  "extracted_nodes lib tree = concat (map (emitted_nodes lib None) tree)"
  by (simp add: extracted_nodes_def nodes_fold_visit)

lemma run_extract_cases:
  "run_extract lib (new_extractor src path) =
     (case ast_parse lib src path of
        Inl SyntaxError \<Rightarrow> Inr (empty_result (fst (splitext (basename path))))
      | Inl OtherException \<Rightarrow> Inl OtherException
      | Inr tree \<Rightarrow>
          (case traversal_fault lib of
             Some SyntaxError \<Rightarrow> Inr (empty_result (fst (splitext (basename path))))
           | Some OtherException \<Rightarrow> Inl OtherException
           | None \<Rightarrow> Inr \<lparr>r_module = fst (splitext (basename path)),
                            r_nodes = extracted_nodes lib tree,
                            r_imports = concat (map emitted_imports tree),
                            r_relationships = []\<rparr>))"
  by (simp add: run_extract_def get_module_name_def fold_visit_emits extracted_nodes_eq
      new_extractor_def Let_def
      split: sum.splits exn.splits option.splits)

lemma main_nodes:
  assumes "rec \<in> set (r_nodes (printed (main lib argv)))"
  shows "\<exists>src tree. ast_parse lib src (argv ! 1) = Inr tree \<and> rec \<in> set (extracted_nodes lib tree)"
  using assms
  by (fastforce simp: main_def run_extract_cases empty_result_def Let_def
      split: if_splits sum.splits exn.splits option.splits)

lemma extracted_nodes_within:
  assumes "rec \<in> set (extracted_nodes lib tree)"
  shows "within lib (set (tree_constructs tree)) rec"
  using assms unfolding extracted_nodes_eq tree_constructs_def
  by (rule within_concat) (auto intro: emitted_nodes_within)

lemma cc_stmt_shift: "cc_stmt s c = c + (calculate_complexity s - 1)"
  by (simp add: calculate_complexity_def cc_stmt_weight)

lemma fold_cc_stmt_weight:
  "fold cc_stmt b c = c + weight (concat (map constructs_stmt b))"
  by (rule fold_weight) (rule cc_stmt_weight)

lemma type_parameter_bound_is_counted: "calculate_complexity generic_with_bound = 2"
  by (simp add: calculate_complexity_def generic_with_bound_def plain_arguments_def
      no_arguments_def cc_arguments_def cc_arg_def cc_opt_def cc_arg_opt_def)





lemma main_calculator:
  "map (\<lambda>rec. (node_type rec, node_name rec, parent rec, cyclomatic_complexity rec,
                parameter_count rec))
     (r_nodes (printed (main (test_lib calculator_tree) [''extractor'', ''calculator.py''])))
   = [(''class'', ''Calculator'', [], 1, 0),
      (''method'', ''__init__'', ''Calculator'', 1, 1),
      (''method'', ''add'', ''Calculator'', 2, 2),
      (''method'', ''multiply'', ''Calculator'', 3, 3),
      (''function'', ''main'', [], 1, 0)]"
  by (simp add: main_def run_extract_cases test_lib_def extracted_nodes_eq calculator_tree_def
      calculator_init_def calculator_add_def calculator_multiply_def plain_arguments_def
      no_arguments_def func_node_def class_node_def new_PythonASTNode_def
      calculate_complexity_def cc_arguments_def cc_arg_def cc_opt_def cc_arg_opt_def
      get_end_line_def Let_def)

lemma within_kinds:
  assumes "within lib K rec"
  shows "(node_type rec = ''method'' \<longrightarrow> parent rec \<noteq> [])
         \<and> (node_type rec = ''function'' \<longrightarrow> parent rec = [])
         \<and> (node_type rec = ''class'' \<longrightarrow>
               parent rec = [] \<and> parameters rec = [] \<and> return_values rec = []
               \<and> parameter_count rec = 0 \<and> return_count rec = 0)"
proof -
  from assms consider c where "rec = class_node lib c"
    | cls f where "rec = func_node lib cls f"
    unfolding within_def by blast
  then show ?thesis
  proof cases
    case 1
    then show ?thesis by simp
  next
    case 2
    then show ?thesis by (cases cls) simp_all
  qed
qed

lemma main_within:
  assumes "rec \<in> set (r_nodes (printed (main lib argv)))"
  shows "\<exists>K. within lib K rec"
  using main_nodes[OF assms] extracted_nodes_within by blast

lemma extracted_nodes_lexical:
  "callable_triples (extracted_nodes lib tree)
     = map callable_kind (concat (map (lexical_callables None) tree))"
  unfolding extracted_nodes_eq by (rule triples_concat) (rule emitted_nodes_lexical)

lemma main_two_args:
  assumes "length argv = 2"
  shows "main lib argv =
     (case open_read lib (argv ! 1) of
        Inl e \<Rightarrow> \<lparr>printed = empty_result [], compact = False, exit_status = 0\<rparr>
      | Inr src \<Rightarrow>
          (case run_extract lib (new_extractor src (argv ! 1)) of
             Inl e \<Rightarrow> \<lparr>printed = empty_result [], compact = False, exit_status = 0\<rparr>
           | Inr res \<Rightarrow>
               (case serialization_fault lib of
                  Some e \<Rightarrow> \<lparr>printed = empty_result [], compact = False, exit_status = 0\<rparr>
                | None \<Rightarrow> \<lparr>printed = res, compact = True, exit_status = 0\<rparr>)))"
  using assms by (simp add: main_def Let_def split: sum.splits option.splits)

lemma broken_module_name: "fst (splitext (basename ''pkg/broken.py'')) = ''broken''"
  by code_simp

lemma entries_concat:
  assumes "\<And>x. g x = concat (map import_entries (h x))"
  shows "concat (map g xs) = concat (map import_entries (concat (map h xs)))"
  using assms by (induction xs) simp_all

lemma entries_concat_set:
  assumes "\<And>x. x \<in> set xs \<Longrightarrow> g x = concat (map import_entries (h x))"
  shows "concat (map g xs) = concat (map import_entries (concat (map h xs)))"
  using assms by (induction xs) simp_all

lemma emitted_imports_statements:
  "emitted_imports s = concat (map import_entries (import_statements s))"
  "emitted_imports_handler h = concat (map import_entries (import_statements_handler h))"
  "emitted_imports_case m = concat (map import_entries (import_statements_case m))"
proof (induction s and h and m)
  case (ClassDef n bs ks b d tp l el)
  then show ?case by (simp add: entries_concat_set)
next
  case (Import ns l)
  show ?case by (simp add: import_records_def)
next
  case (ImportFrom m ns lv l)
  show ?case by (simp add: import_from_records_def)
next
  case (If test b orelse)
  then show ?case by (simp add: entries_concat_set)
next
  case (While test b orelse)
  then show ?case by (simp add: entries_concat_set)
next
  case (For t i b orelse)
  then show ?case by (simp add: entries_concat_set)
next
  case (AsyncFor t i b orelse)
  then show ?case by (simp add: entries_concat_set)
next
  case (With items b)
  then show ?case by (simp add: entries_concat_set)
next
  case (AsyncWith items b)
  then show ?case by (simp add: entries_concat_set)
next
  case (Try b handlers orelse finalbody)
  then show ?case by (simp add: entries_concat_set)
next
  case (Match subject cases)
  then show ?case by (simp add: entries_concat_set)
next
  case (ExceptHandler t n b)
  then show ?case by (simp add: entries_concat_set)
next
  case (MatchCase pattern guard b)
  then show ?case by (simp add: entries_concat_set)
qed simp_all

lemma main_nested_class:
  "map (\<lambda>rec. (node_type rec, node_name rec, parent rec))
     (r_nodes (printed (main (test_lib nested_class_tree) [''extractor'', ''nested.py''])))
   = [(''class'', ''Outer'', []), (''class'', ''Inner'', []), (''method'', ''run'', ''Inner'')]"
  by (simp add: main_def run_extract_cases test_lib_def extracted_nodes_eq nested_class_tree_def)

section \<open>The claims\<close>

text \<open>
  C1, as the code has it. The complexity recorded for a callable is the calculator's
  score of the whole sub-tree of its declaration: the calculator is started on the
  declaration node and has no handler that stops at a function definition. The recorded
  value is 1 plus what the parameters (annotations and defaults), the body, the
  decorators, the return annotation and the type parameters hold. Every statement of the
  body adds what it would score on its own above the base of 1; a function defined in the
  body adds the complexity of its own record, less 1.
\<close>

theorem complexity_covers_whole_declaration:
  "cyclomatic_complexity (last (nodes (visit lib (FunctionDef n a b d r tp l el) st)))
     = 1 + cc_arguments a 0 + fold cc_stmt b 0 + fold cc_expr d 0 + cc_opt r 0
       + fold cc_expr tp 0
   \<and> cyclomatic_complexity (last (nodes (visit lib (AsyncFunctionDef n a b d r tp l el) st)))
     = 1 + cc_arguments a 0 + fold cc_stmt b 0 + fold cc_expr d 0 + cc_opt r 0
       + fold cc_expr tp 0
   \<and> map cyclomatic_complexity
       (r_nodes (printed (main (test_lib [FunctionDef n a b d r tp l el]) [prog, path])))
     = [1 + cc_arguments a 0 + fold cc_stmt b 0 + fold cc_expr d 0 + cc_opt r 0
        + fold cc_expr tp 0]
   \<and> cyclomatic_complexity
       (last (nodes (visit lib (FunctionDef n a (before @ [s] @ after) d r tp l el) st)))
     = cyclomatic_complexity
         (last (nodes (visit lib (FunctionDef n a (before @ after) d r tp l el) st)))
       + (cc_stmt s 1 - 1)
   \<and> cyclomatic_complexity
       (last (nodes (visit lib
          (FunctionDef n a (before @ [FunctionDef n' a' b' d' r' tp' l' el'] @ after) d r tp l el)
          st)))
     = cyclomatic_complexity
         (last (nodes (visit lib (FunctionDef n a (before @ after) d r tp l el) st)))
       + (cyclomatic_complexity
            (last (nodes (visit lib (FunctionDef n' a' b' d' r' tp' l' el') st'))) - 1)"
proof -
  have recorded:
    "cyclomatic_complexity (last (nodes (visit lib (FunctionDef fn fa fb fd fr ftp fl fel) st'')))
       = 1 + weight (constructs_stmt (FunctionDef fn fa fb fd fr ftp fl fel))"
    "cyclomatic_complexity
       (last (nodes (visit lib (AsyncFunctionDef fn fa fb fd fr ftp fl fel) st'')))
       = 1 + weight (constructs_stmt (AsyncFunctionDef fn fa fb fd fr ftp fl fel))"
    for fn fa fb fd fr ftp fl fel st''
    by (simp_all add: visit_FunctionDef_def calculate_complexity_def cc_stmt_weight)
  have printed: "map cyclomatic_complexity
       (r_nodes (printed (main (test_lib [FunctionDef n a b d r tp l el]) [prog, path])))
     = [1 + weight (constructs_stmt (FunctionDef n a b d r tp l el))]"
    by (simp add: main_def run_extract_cases test_lib_def extracted_nodes_eq
        calculate_complexity_def cc_stmt_weight)
  show ?thesis
    unfolding printed recorded
    by (simp add: cc_stmt_weight cc_arguments_weight fold_cc_stmt_weight fold_cc_expr_weight
        cc_opt_weight)
qed

text \<open>
  C1 as stated fails: an \<^verbatim>\<open>if\<close> inside the body of a nested function raises the score of
  the outer function, and the complexity recorded for it, from 1 to 2.
\<close>

theorem nested_callable_body_is_counted:
  "calculate_complexity outer_with_branching_inner = 2
   \<and> calculate_complexity outer_with_plain_inner = 1
   \<and> map (\<lambda>rec. (node_name rec, cyclomatic_complexity rec))
       (r_nodes (printed (main (test_lib [outer_with_branching_inner]) [''extractor'', ''m.py''])))
     = [(''outer'', 2)]
   \<and> map (\<lambda>rec. (node_name rec, cyclomatic_complexity rec))
       (r_nodes (printed (main (test_lib [outer_with_plain_inner]) [''extractor'', ''m.py''])))
     = [(''outer'', 1)]"
proof -
  have scores: "calculate_complexity outer_with_branching_inner = 2"
    "calculate_complexity outer_with_plain_inner = 1"
    by (simp_all add: calculate_complexity_def outer_with_branching_inner_def
        outer_with_plain_inner_def no_arguments_def cc_arguments_def cc_opt_def cc_arg_opt_def)
  have "r_nodes (printed (main (test_lib [f]) [''extractor'', ''m.py'']))
          = extracted_nodes (test_lib [f]) [f]" for f
    by (simp add: main_def run_extract_cases test_lib_def)
  moreover have "extracted_nodes lib [outer_with_branching_inner]
          = [func_node lib None outer_with_branching_inner]"
    "extracted_nodes lib [outer_with_plain_inner] = [func_node lib None outer_with_plain_inner]"
    for lib
    by (simp_all add: extracted_nodes_eq outer_with_branching_inner_def
        outer_with_plain_inner_def)
  moreover have "name outer_with_branching_inner = ''outer''"
    "name outer_with_plain_inner = ''outer''"
    by (simp_all add: outer_with_branching_inner_def outer_with_plain_inner_def)
  ultimately show ?thesis using scores by simp
qed

text \<open>
  C6, as the code has it. The score of a callable is 1 plus the sum of the increments of
  the counted constructs in the sub-tree of its declaration (body, parameter annotations
  and defaults, decorators, return annotation, type parameters): 1 for a conditional, a
  loop, an exception
  handler, a with-statement and a comprehension filter, and N - 1 for a boolean operation
  of N operands. A callable whose body is one loop holding one conditional, with nothing
  counted elsewhere, scores 3.
\<close>

theorem complexity_is_one_plus_increments:
  "calculate_complexity node = 1 + sum_list (map increment (constructs_stmt node))
   \<and> (constructs_arguments a = [] \<and> constructs_expr t = [] \<and> constructs_expr i = []
        \<and> constructs_expr test = [] \<and> concat (map constructs_stmt blk) = []
        \<and> concat (map constructs_expr tp) = []
      \<longrightarrow> calculate_complexity (FunctionDef n a [For t i [If test blk []] []] [] None tp l el) = 3)"
proof (intro conjI impI)
  show "calculate_complexity node = 1 + sum_list (map increment (constructs_stmt node))"
    by (simp add: calculate_complexity_def cc_stmt_weight weight_def)
next
  assume "constructs_arguments a = [] \<and> constructs_expr t = [] \<and> constructs_expr i = []
        \<and> constructs_expr test = [] \<and> concat (map constructs_stmt blk) = []
        \<and> concat (map constructs_expr tp) = []"
  then have "constructs_stmt (FunctionDef n a [For t i [If test blk []] []] [] None tp l el)
               = [Loop, Conditional]"
    by (simp add: constructs_opt_def)
  then show "calculate_complexity (FunctionDef n a [For t i [If test blk []] []] [] None tp l el) = 3"
    by (simp add: calculate_complexity_def cc_stmt_weight)
qed

theorem complexity_is_one_plus_increments_witness:
  "constructs_arguments (plain_arguments [''self'', ''x'', ''y'']) = []
   \<and> constructs_expr (Name ''i'') = []
   \<and> constructs_expr (OtherExpr [Name ''range'', Name ''y'']) = []
   \<and> constructs_expr (OtherExpr [OtherExpr [Name ''i'', Constant ''2''], Constant ''0'']) = []
   \<and> concat (map constructs_stmt [OtherStmt [Name ''result'', Name ''i'']]) = []
   \<and> concat (map constructs_expr []) = []
   \<and> calculate_complexity
        (FunctionDef ''multiply'' (plain_arguments [''self'', ''x'', ''y''])
           [For (Name ''i'') (OtherExpr [Name ''range'', Name ''y''])
              [If (OtherExpr [OtherExpr [Name ''i'', Constant ''2''], Constant ''0''])
                 [OtherStmt [Name ''result'', Name ''i'']] []] []]
           [] None [] 12 (Some 17)) = 3
   \<and> calculate_complexity calculator_multiply
       = 1 + sum_list (map increment (constructs_stmt calculator_multiply))"
  using complexity_is_one_plus_increments
    [of calculator_multiply "plain_arguments [''self'', ''x'', ''y'']" "Name ''i''"
        "OtherExpr [Name ''range'', Name ''y'']"
        "OtherExpr [OtherExpr [Name ''i'', Constant ''2''], Constant ''0'']"
        "[OtherStmt [Name ''result'', Name ''i'']]" "[]" "''multiply''" 12 "Some 17"]
  by (simp add: constructs_arguments_def plain_arguments_def no_arguments_def
      constructs_arg_def constructs_opt_def)

text \<open>
  C6 as stated fails: a comprehension filter in a decorator is counted, so the score is
  not 1 plus the increments of the constructs in the body.
\<close>

theorem decorator_construct_is_counted:
  "calculate_complexity decorated_handler = 2
   \<and> 1 + sum_list (map increment (concat (map constructs_stmt (body decorated_handler)))) = 1"
  by (simp add: calculate_complexity_def decorated_handler_def no_arguments_def
      cc_arguments_def cc_opt_def cc_arg_opt_def count_filters_def)




text \<open>
  C4. In every printed result a method record has a non-empty parent and a function
  record has an empty parent. The kind, name and parent of the callable records that a
  visit adds are those of the callables outside every callable body, in source order,
  each a method of the class whose body encloses it and a function when no class does:
  the current-class register, saved and restored around a class body, always holds the
  enclosing class. A callable is emitted as a method exactly when the register is set.
\<close>

theorem method_parent_is_enclosing_class:
  "(\<forall>rec \<in> set (r_nodes (printed (main lib argv))).
       (node_type rec = ''method'' \<longrightarrow> parent rec \<noteq> [])
       \<and> (node_type rec = ''function'' \<longrightarrow> parent rec = []))
   \<and> callable_triples (nodes (visit lib s st))
       = callable_triples (nodes st)
         @ map callable_kind (lexical_callables (current_class st) s)
   \<and> current_class (visit lib s st) = current_class st
   \<and> callable_triples (extracted_nodes lib tree)
       = map callable_kind (concat (map (lexical_callables None) tree))
   \<and> (node_type (last (nodes (visit_FunctionDef lib node st))) = ''method''
        \<longleftrightarrow> truthy (current_class st))
   \<and> (node_type (last (nodes (visit_FunctionDef lib node st))) = ''function''
        \<longleftrightarrow> \<not> truthy (current_class st))
   \<and> (truthy (current_class st)
        \<longrightarrow> parent (last (nodes (visit_FunctionDef lib node st))) = the (current_class st))"
proof (intro conjI ballI)
  fix rec
  assume "rec \<in> set (r_nodes (printed (main lib argv)))"
  then obtain K where "within lib K rec" using main_within by blast
  then show "node_type rec = ''method'' \<longrightarrow> parent rec \<noteq> []"
    and "node_type rec = ''function'' \<longrightarrow> parent rec = []"
    using within_kinds by blast+
next
  show "callable_triples (nodes (visit lib s st))
          = callable_triples (nodes st)
            @ map callable_kind (lexical_callables (current_class st) s)"
    by (simp add: visit_emits emitted_nodes_lexical)
next
  show "current_class (visit lib s st) = current_class st"
    by (simp add: visit_emits)
next
  show "callable_triples (extracted_nodes lib tree)
          = map callable_kind (concat (map (lexical_callables None) tree))"
    by (rule extracted_nodes_lexical)
qed (simp_all add: visit_FunctionDef_def)

theorem method_parent_is_enclosing_class_witness:
  "(\<exists>rec \<in> set (r_nodes (printed (main (test_lib calculator_tree)
                                  [''extractor'', ''calculator.py'']))).
      node_type rec = ''method'' \<and> parent rec = ''Calculator'' \<and> parent rec \<noteq> [])
   \<and> (\<exists>rec \<in> set (r_nodes (printed (main (test_lib calculator_tree)
                                  [''extractor'', ''calculator.py'']))).
      node_type rec = ''function'' \<and> parent rec = [])
   \<and> lexical_callables None (hd calculator_tree)
       = [(''__init__'', Some ''Calculator''), (''add'', Some ''Calculator''),
          (''multiply'', Some ''Calculator'')]
   \<and> callable_triples (extracted_nodes (test_lib calculator_tree) calculator_tree)
       = [(''method'', ''__init__'', ''Calculator''), (''method'', ''add'', ''Calculator''),
          (''method'', ''multiply'', ''Calculator''), (''function'', ''main'', [])]
   \<and> truthy (current_class ((new_extractor [] [])\<lparr>current_class := Some ''Calculator''\<rparr>))
   \<and> parent (last (nodes (visit_FunctionDef (test_lib calculator_tree) calculator_add
               ((new_extractor [] [])\<lparr>current_class := Some ''Calculator''\<rparr>))))
       = ''Calculator''"
proof -
  let ?lib = "test_lib calculator_tree"
  let ?argv = "[''extractor'', ''calculator.py'']"
  let ?st = "(new_extractor [] [])\<lparr>current_class := Some ''Calculator''\<rparr>"
  note inst = method_parent_is_enclosing_class [of ?lib ?argv "hd calculator_tree" ?st
      calculator_tree calculator_add]
  have recs: "map (\<lambda>rec. (node_type rec, parent rec)) (r_nodes (printed (main ?lib ?argv)))
      = [(''class'', []), (''method'', ''Calculator''), (''method'', ''Calculator''),
         (''method'', ''Calculator''), (''function'', [])]"
    using main_calculator [THEN arg_cong, of "map (\<lambda>(t, n, p, c, k). (t, p))"]
    by (simp add: comp_def)
  then obtain r0 r1 r2 r3 r4 where rs: "r_nodes (printed (main ?lib ?argv)) = [r0, r1, r2, r3, r4]"
    and r1: "node_type r1 = ''method''" "parent r1 = ''Calculator''"
    and r4: "node_type r4 = ''function''" "parent r4 = []"
    by (auto simp: map_eq_Cons_conv)
  have lex: "lexical_callables None (hd calculator_tree)
       = [(''__init__'', Some ''Calculator''), (''add'', Some ''Calculator''),
          (''multiply'', Some ''Calculator'')]"
    by (simp add: calculator_tree_def calculator_init_def calculator_add_def
        calculator_multiply_def)
  have lex_all: "concat (map (lexical_callables None) calculator_tree)
       = [(''__init__'', Some ''Calculator''), (''add'', Some ''Calculator''),
          (''multiply'', Some ''Calculator''), (''main'', None)]"
    by (simp add: calculator_tree_def calculator_init_def calculator_add_def
        calculator_multiply_def)
  from inst have "\<forall>rec \<in> set (r_nodes (printed (main ?lib ?argv))).
       (node_type rec = ''method'' \<longrightarrow> parent rec \<noteq> [])" by blast
  with rs r1 have "parent r1 \<noteq> []" by simp
  with rs r1 have m: "\<exists>rec \<in> set (r_nodes (printed (main ?lib ?argv))).
      node_type rec = ''method'' \<and> parent rec = ''Calculator'' \<and> parent rec \<noteq> []"
    by auto
  from rs r4 have f: "\<exists>rec \<in> set (r_nodes (printed (main ?lib ?argv))).
      node_type rec = ''function'' \<and> parent rec = []"
    by auto
  from inst have "callable_triples (extracted_nodes ?lib calculator_tree)
       = map callable_kind (concat (map (lexical_callables None) calculator_tree))" by blast
  then have t: "callable_triples (extracted_nodes ?lib calculator_tree)
       = [(''method'', ''__init__'', ''Calculator''), (''method'', ''add'', ''Calculator''),
          (''method'', ''multiply'', ''Calculator''), (''function'', ''main'', [])]"
    by (simp add: lex_all callable_kind_def)
  have tr: "truthy (current_class ?st)" by (simp add: new_extractor_def)
  with inst have "parent (last (nodes (visit_FunctionDef ?lib calculator_add ?st)))
                    = the (current_class ?st)"
    by blast
  then have p: "parent (last (nodes (visit_FunctionDef ?lib calculator_add ?st))) = ''Calculator''"
    by (simp add: new_extractor_def)
  from m f lex t tr p show ?thesis by blast
qed

text \<open>
  C3, as the code has it. The parameters of a function or method record are, in this
  order: one entry for each positional-or-keyword parameter (\<^verbatim>\<open>args.args\<close>) in declared
  order, then one for the variadic positional parameter if there is one, its name after
  \<^verbatim>\<open>*\<close>, then one for the variadic keyword parameter if there is one, its name after \<^verbatim>\<open>**\<close>;
  each with the label of its annotation, empty when it has none. Positional-only and
  keyword-only parameters have no entry. \<^verbatim>\<open>parameter_count\<close> is the length of the sequence.
\<close>

theorem parameters_in_fixed_order:
  "parameters (func_node lib cls node)
     = map (\<lambda>x. \<lparr>p_name = arg x, p_type = get_annotation lib (annotation x)\<rparr>)
         (args (def_args node))
       @ (case vararg (def_args node) of
            None \<Rightarrow> []
          | Some x \<Rightarrow> [\<lparr>p_name = ''*'' @ arg x, p_type = get_annotation lib (annotation x)\<rparr>])
       @ (case kwarg (def_args node) of
            None \<Rightarrow> []
          | Some x \<Rightarrow> [\<lparr>p_name = ''**'' @ arg x, p_type = get_annotation lib (annotation x)\<rparr>])
   \<and> parameter_count (func_node lib cls node) = length (parameters (func_node lib cls node))
   \<and> get_annotation lib None = []
   \<and> parameters (func_node (test_lib []) None log_variadic)
     = [\<lparr>p_name = ''level'', p_type = ''int''\<rparr>, \<lparr>p_name = ''*items'', p_type = ''str''\<rparr>,
        \<lparr>p_name = ''**fields'', p_type = []\<rparr>]"
proof -
  have label: "(if x \<noteq> None then get_annotation lib x else []) = get_annotation lib x" for x
    by (cases x) simp_all
  have params: "parameters (func_node lib cls node)
     = map (\<lambda>x. \<lparr>p_name = arg x, p_type = get_annotation lib (annotation x)\<rparr>)
         (args (def_args node))
       @ (case vararg (def_args node) of
            None \<Rightarrow> []
          | Some x \<Rightarrow> [\<lparr>p_name = ''*'' @ arg x, p_type = get_annotation lib (annotation x)\<rparr>])
       @ (case kwarg (def_args node) of
            None \<Rightarrow> []
          | Some x \<Rightarrow> [\<lparr>p_name = ''**'' @ arg x, p_type = get_annotation lib (annotation x)\<rparr>])"
    by (simp add: func_node_def new_PythonASTNode_def Let_def label split: option.splits)
  have count: "parameter_count (func_node lib cls node)
                 = length (parameters (func_node lib cls node))"
    by (simp add: func_node_def new_PythonASTNode_def Let_def split: option.splits)
  have example: "parameters (func_node (test_lib []) None log_variadic)
     = [\<lparr>p_name = ''level'', p_type = ''int''\<rparr>, \<lparr>p_name = ''*items'', p_type = ''str''\<rparr>,
        \<lparr>p_name = ''**fields'', p_type = []\<rparr>]"
    by (simp add: func_node_def new_PythonASTNode_def Let_def log_variadic_def no_arguments_def)
  from params count example show ?thesis by simp
qed

text \<open>
  C3 as stated fails: \<^verbatim>\<open>connect\<close> declares two parameters, and its record has one entry
  and a count of 1, the keyword-only parameter being left out.
\<close>

theorem keyword_only_parameter_is_dropped:
  "map arg (declared_parameters (def_args connect_keyword_only)) = [''host'', ''timeout'']
   \<and> map p_name (parameters (func_node (test_lib []) None connect_keyword_only)) = [''host'']
   \<and> parameter_count (func_node (test_lib []) None connect_keyword_only) = 1"
  by (simp add: func_node_def new_PythonASTNode_def Let_def connect_keyword_only_def
      plain_arguments_def no_arguments_def declared_parameters_def)

text \<open>
  C8, as the code has it. A run that reads and parses the file prints, as its imports, the
  entries of the import statements that lie outside every callable body (at top level,
  in a class body, and in the blocks of compound statements there), in source order. A
  from-import statement \<^verbatim>\<open>from M import X, Y as Z\<close> among them has one entry for each
  imported name, in the order of the statement: the module is \<^verbatim>\<open>M.X\<close> when \<^verbatim>\<open>M\<close> is given and
  \<^verbatim>\<open>X\<close> otherwise (the dots of a relative import are not part of it), the name is the alias
  when one is given and the original name otherwise, the alias is the alias or empty, and
  the line is the line of the statement. A from-import statement inside the body of a
  callable has no entry.
\<close>

theorem from_import_entries:
  assumes "length argv = 2"
    and "open_read lib (argv ! 1) = Inr src"
    and "ast_parse lib src (argv ! 1) = Inr tree"
    and "traversal_fault lib = None"
    and "serialization_fault lib = None"
  shows "r_imports (printed (main lib argv))
           = concat (map import_entries (concat (map import_statements tree)))
         \<and> import_entries (ImportFrom m ns lv l)
           = map (\<lambda>al. \<lparr>i_module = (if truthy m then the m @ ''.'' @ alias_name al
                                    else alias_name al),
                        i_name = (if truthy (asname al) then the (asname al) else alias_name al),
                        i_alias = (if truthy (asname al) then the (asname al) else []),
                        i_line = l\<rparr>) ns
         \<and> import_statements (ImportFrom m ns lv l) = [ImportFrom m ns lv l]
         \<and> import_statements (FunctionDef n a b d r tp fl el) = []
         \<and> import_statements (AsyncFunctionDef n a b d r tp fl el) = []
         \<and> import_infos (visit lib (ImportFrom m ns lv l) st)
           = import_infos st @ import_entries (ImportFrom m ns lv l)
         \<and> import_infos (visit lib (FunctionDef n a b d r tp fl el) st) = import_infos st"
proof -
  have "run_extract lib (new_extractor src (argv ! 1))
          = Inr \<lparr>r_module = fst (splitext (basename (argv ! 1))),
                 r_nodes = extracted_nodes lib tree,
                 r_imports = concat (map emitted_imports tree),
                 r_relationships = []\<rparr>"
    using assms(3,4) by (simp add: run_extract_cases)
  then have "r_imports (printed (main lib argv)) = concat (map emitted_imports tree)"
    using assms(2,5) unfolding main_two_args [OF assms(1)] by simp
  also have "\<dots> = concat (map import_entries (concat (map import_statements tree)))"
    by (simp add: entries_concat [OF emitted_imports_statements(1)])
  finally show ?thesis
    by (simp add: visit_ImportFrom_eq import_from_records_def visit_FunctionDef_def)
qed

theorem from_import_entries_witness:
  "length [''extractor'', ''service.py''] = 2
   \<and> open_read (test_lib import_tree) ([''extractor'', ''service.py''] ! 1) = Inr ''source text''
   \<and> ast_parse (test_lib import_tree) ''source text'' ([''extractor'', ''service.py''] ! 1)
       = Inr import_tree
   \<and> traversal_fault (test_lib import_tree) = None
   \<and> serialization_fault (test_lib import_tree) = None
   \<and> r_imports (printed (main (test_lib import_tree) [''extractor'', ''service.py'']))
       = [\<lparr>i_module = ''typing.Optional'', i_name = ''Optional'', i_alias = [], i_line = 1\<rparr>,
          \<lparr>i_module = ''typing.Dict'', i_name = ''Dict'', i_alias = [], i_line = 1\<rparr>,
          \<lparr>i_module = ''models.User'', i_name = ''U'', i_alias = ''U'', i_line = 3\<rparr>,
          \<lparr>i_module = ''fast.parse'', i_name = ''parse'', i_alias = [], i_line = 7\<rparr>,
          \<lparr>i_module = ''slow.parse'', i_name = ''parse'', i_alias = [], i_line = 9\<rparr>]"
proof -
  let ?lib = "test_lib import_tree"
  let ?argv = "[''extractor'', ''service.py'']"
  have len: "length ?argv = 2" by simp
  have rd: "open_read ?lib (?argv ! 1) = Inr ''source text''" by (simp add: test_lib_def)
  have prs: "ast_parse ?lib ''source text'' (?argv ! 1) = Inr import_tree"
    by (simp add: test_lib_def)
  have trv: "traversal_fault ?lib = None" by (simp add: test_lib_def)
  have ser: "serialization_fault ?lib = None" by (simp add: test_lib_def)
  have stmts: "concat (map import_statements import_tree)
      = [ImportFrom (Some ''typing'') [Alias ''Optional'' None, Alias ''Dict'' None] 0 1,
         ImportFrom (Some ''models'') [Alias ''User'' (Some ''U'')] 1 3,
         ImportFrom (Some ''fast'') [Alias ''parse'' None] 0 7,
         ImportFrom (Some ''slow'') [Alias ''parse'' None] 0 9]"
    by (simp add: import_tree_def)
  from from_import_entries [OF len rd prs trv ser]
  have "r_imports (printed (main ?lib ?argv))
          = concat (map import_entries (concat (map import_statements import_tree)))"
    by blast
  then have "r_imports (printed (main ?lib ?argv))
       = [\<lparr>i_module = ''typing.Optional'', i_name = ''Optional'', i_alias = [], i_line = 1\<rparr>,
          \<lparr>i_module = ''typing.Dict'', i_name = ''Dict'', i_alias = [], i_line = 1\<rparr>,
          \<lparr>i_module = ''models.User'', i_name = ''U'', i_alias = ''U'', i_line = 3\<rparr>,
          \<lparr>i_module = ''fast.parse'', i_name = ''parse'', i_alias = [], i_line = 7\<rparr>,
          \<lparr>i_module = ''slow.parse'', i_name = ''parse'', i_alias = [], i_line = 9\<rparr>]"
    unfolding stmts by simp
  with len rd prs trv ser show ?thesis by blast
qed

text \<open>
  C8 as stated fails: the from-import statement in the body of \<^verbatim>\<open>load\<close> names one symbol,
  and the run prints no import entry at all.
\<close>

theorem from_import_in_callable_body_is_dropped:
  "body (hd local_import_tree)
     = [ImportFrom (Some ''json'') [Alias ''loads'' None] 0 2,
        OtherStmt [OtherExpr [Name ''loads'', Name ''path'']]]
   \<and> r_imports (printed (main (test_lib local_import_tree) [''extractor'', ''load.py''])) = []
   \<and> compact (main (test_lib local_import_tree) [''extractor'', ''load.py''])
   \<and> map node_name (r_nodes (printed (main (test_lib local_import_tree)
                                 [''extractor'', ''load.py''])))
     = [''load'']"
  by (simp add: main_def run_extract_cases test_lib_def extracted_nodes_eq local_import_tree_def)

text \<open>
  C2, as the code has it. With exactly one argument, the process prints the
  empty-result document of the usage-error case (module \<^verbatim>\<open>""\<close>, no nodes, imports or
  relationships) and exits with status 0 when the file cannot be read, when parsing or
  traversal raises an exception other than \<^verbatim>\<open>SyntaxError\<close>, or when serialisation raises
  any exception. A \<^verbatim>\<open>SyntaxError\<close> is caught inside \<^verbatim>\<open>extract\<close> and is not part of this case:
  the document printed then carries the module name of the file.
\<close>

theorem failure_prints_empty_document:
  assumes "length argv = 2"
    and "(\<exists>e. open_read lib (argv ! 1) = Inl e)
         \<or> (\<exists>src. open_read lib (argv ! 1) = Inr src
               \<and> (ast_parse lib src (argv ! 1) = Inl OtherException
                    \<or> (\<exists>tree. ast_parse lib src (argv ! 1) = Inr tree
                          \<and> traversal_fault lib = Some OtherException)
                    \<or> (\<exists>e. serialization_fault lib = Some e)))"
  shows "main lib argv = \<lparr>printed = empty_result [], compact = False, exit_status = 0\<rparr>
         \<and> printed (main lib argv) = printed (main lib [])
         \<and> r_module (printed (main lib argv)) = []
         \<and> exit_status (main lib argv) = 0"
proof -
  have "main lib argv = \<lparr>printed = empty_result [], compact = False, exit_status = 0\<rparr>"
    using assms(2) unfolding main_two_args [OF assms(1)]
    by (auto simp: run_extract_cases split: sum.splits option.splits exn.splits)
  moreover have "main lib [] = \<lparr>printed = empty_result [], compact = False, exit_status = 1\<rparr>"
    by (simp add: main_def)
  ultimately show ?thesis by (simp add: empty_result_def)
qed

theorem failure_prints_empty_document_witness:
  "length [''extractor'', ''missing.py''] = 2
   \<and> open_read unreadable_lib ([''extractor'', ''missing.py''] ! 1) = Inl OtherException
   \<and> main unreadable_lib [''extractor'', ''missing.py'']
       = \<lparr>printed = \<lparr>r_module = [], r_nodes = [], r_imports = [], r_relationships = []\<rparr>,
          compact = False, exit_status = 0\<rparr>
   \<and> open_read parse_fault_lib ([''extractor'', ''missing.py''] ! 1) = Inr ''source text''
   \<and> ast_parse parse_fault_lib ''source text'' ([''extractor'', ''missing.py''] ! 1)
       = Inl OtherException
   \<and> main parse_fault_lib [''extractor'', ''missing.py'']
       = \<lparr>printed = \<lparr>r_module = [], r_nodes = [], r_imports = [], r_relationships = []\<rparr>,
          compact = False, exit_status = 0\<rparr>
   \<and> ast_parse traversal_fault_lib ''source text'' ([''extractor'', ''missing.py''] ! 1) = Inr []
   \<and> traversal_fault traversal_fault_lib = Some OtherException
   \<and> main traversal_fault_lib [''extractor'', ''missing.py'']
       = \<lparr>printed = \<lparr>r_module = [], r_nodes = [], r_imports = [], r_relationships = []\<rparr>,
          compact = False, exit_status = 0\<rparr>
   \<and> serialization_fault print_fault_lib = Some OtherException
   \<and> main print_fault_lib [''extractor'', ''missing.py'']
       = \<lparr>printed = \<lparr>r_module = [], r_nodes = [], r_imports = [], r_relationships = []\<rparr>,
          compact = False, exit_status = 0\<rparr>"
proof -
  let ?argv = "[''extractor'', ''missing.py'']"
  have len: "length ?argv = 2" by simp
  have unreadable: "open_read unreadable_lib (?argv ! 1) = Inl OtherException"
    by (simp add: unreadable_lib_def)
  have rd: "open_read parse_fault_lib (?argv ! 1) = Inr ''source text''"
    "open_read traversal_fault_lib (?argv ! 1) = Inr ''source text''"
    "open_read print_fault_lib (?argv ! 1) = Inr ''source text''"
    by (simp_all add: parse_fault_lib_def traversal_fault_lib_def print_fault_lib_def
        test_lib_def)
  have prs: "ast_parse parse_fault_lib ''source text'' (?argv ! 1) = Inl OtherException"
    by (simp add: parse_fault_lib_def)
  have trv: "ast_parse traversal_fault_lib ''source text'' (?argv ! 1) = Inr []"
    "traversal_fault traversal_fault_lib = Some OtherException"
    by (simp_all add: traversal_fault_lib_def test_lib_def)
  have ser: "serialization_fault print_fault_lib = Some OtherException"
    by (simp add: print_fault_lib_def)
  have "main unreadable_lib ?argv
          = \<lparr>printed = empty_result [], compact = False, exit_status = 0\<rparr>"
    using failure_prints_empty_document [of ?argv unreadable_lib] len unreadable by blast
  moreover have "main parse_fault_lib ?argv
          = \<lparr>printed = empty_result [], compact = False, exit_status = 0\<rparr>"
    using failure_prints_empty_document [of ?argv parse_fault_lib] len rd(1) prs by blast
  moreover have "main traversal_fault_lib ?argv
          = \<lparr>printed = empty_result [], compact = False, exit_status = 0\<rparr>"
    using failure_prints_empty_document [of ?argv traversal_fault_lib] len rd(2) trv by blast
  moreover have "main print_fault_lib ?argv
          = \<lparr>printed = empty_result [], compact = False, exit_status = 0\<rparr>"
    using failure_prints_empty_document [of ?argv print_fault_lib] len rd(3) ser by blast
  ultimately show ?thesis
    using len unreadable rd(1) prs trv ser by (simp add: empty_result_def)
qed

text \<open>
  C2 as stated fails: for a file that is read and does not parse, the module of the
  printed document is the base name of the file, not the empty string of the
  usage-error document.
\<close>

theorem syntax_error_keeps_module_name:
  "r_module (printed (main syntax_error_lib [''extractor'', ''pkg/broken.py''])) = ''broken''
   \<and> r_module (printed (main syntax_error_lib [])) = []
   \<and> exit_status (main syntax_error_lib [''extractor'', ''pkg/broken.py'']) = 0"
  by (simp add: main_def run_extract_cases syntax_error_lib_def test_lib_def empty_result_def
      broken_module_name)

text \<open>
  C5. When the file given as the only argument is read and its text does not parse
  (\<^verbatim>\<open>ast.parse\<close> raises \<^verbatim>\<open>SyntaxError\<close>), and printing does not fail, the process prints the
  document whose module is the base name of the file without its extension and whose
  nodes, imports and relationships are empty, and exits with status 0.
\<close>

theorem syntax_error_prints_module_name:
  assumes "length argv = 2"
    and "open_read lib (argv ! 1) = Inr src"
    and "ast_parse lib src (argv ! 1) = Inl SyntaxError"
    and "serialization_fault lib = None"
  shows "main lib argv =
           \<lparr>printed = \<lparr>r_module = fst (splitext (basename (argv ! 1))), r_nodes = [],
                        r_imports = [], r_relationships = []\<rparr>,
            compact = True, exit_status = 0\<rparr>"
  using assms(2-4) unfolding main_two_args [OF assms(1)]
  by (simp add: run_extract_cases empty_result_def)

theorem syntax_error_prints_module_name_witness:
  "length [''extractor'', ''pkg/broken.py''] = 2
   \<and> open_read syntax_error_lib ([''extractor'', ''pkg/broken.py''] ! 1) = Inr ''source text''
   \<and> ast_parse syntax_error_lib ''source text'' ([''extractor'', ''pkg/broken.py''] ! 1)
       = Inl SyntaxError
   \<and> serialization_fault syntax_error_lib = None
   \<and> fst (splitext (basename ([''extractor'', ''pkg/broken.py''] ! 1))) = ''broken''
   \<and> main syntax_error_lib [''extractor'', ''pkg/broken.py'']
       = \<lparr>printed = \<lparr>r_module = ''broken'', r_nodes = [], r_imports = [], r_relationships = []\<rparr>,
          compact = True, exit_status = 0\<rparr>"
proof -
  have len: "length [''extractor'', ''pkg/broken.py''] = 2" by simp
  have rd: "open_read syntax_error_lib ([''extractor'', ''pkg/broken.py''] ! 1)
              = Inr ''source text''"
    by (simp add: syntax_error_lib_def test_lib_def)
  have prs: "ast_parse syntax_error_lib ''source text'' ([''extractor'', ''pkg/broken.py''] ! 1)
               = Inl SyntaxError"
    by (simp add: syntax_error_lib_def)
  have ser: "serialization_fault syntax_error_lib = None"
    by (simp add: syntax_error_lib_def test_lib_def)
  have nm: "fst (splitext (basename ([''extractor'', ''pkg/broken.py''] ! 1))) = ''broken''"
    by (simp add: broken_module_name)
  from syntax_error_prints_module_name [OF len rd prs ser] nm
  have "main syntax_error_lib [''extractor'', ''pkg/broken.py'']
       = \<lparr>printed = \<lparr>r_module = ''broken'', r_nodes = [], r_imports = [], r_relationships = []\<rparr>,
          compact = True, exit_status = 0\<rparr>"
    by simp
  with len rd prs ser nm show ?thesis by blast
qed

text \<open>
  C10. In every printed result a class record has an empty parent, no parameters and no
  return values, and both counts 0. A class declared in the body of another class is
  emitted with an empty parent, and a method of the inner class has the inner class's
  name as its parent.
\<close>

theorem class_record_has_no_parent:
  "(\<forall>rec \<in> set (r_nodes (printed (main lib argv))).
       node_type rec = ''class'' \<longrightarrow>
         parent rec = [] \<and> parameters rec = [] \<and> return_values rec = []
         \<and> parameter_count rec = 0 \<and> return_count rec = 0)
   \<and> (inner \<noteq> [] \<longrightarrow>
        map (\<lambda>rec. (node_type rec, node_name rec, parent rec))
          (extracted_nodes lib
             [ClassDef outer bs ks
                [ClassDef inner bs' ks' [FunctionDef m a b d r tp l el] d' tp' l' el']
                d'' tp'' l'' el''])
        = [(''class'', outer, []), (''class'', inner, []), (''method'', m, inner)])"
proof -
  have classes: "\<forall>rec \<in> set (r_nodes (printed (main lib argv))).
       node_type rec = ''class'' \<longrightarrow>
         parent rec = [] \<and> parameters rec = [] \<and> return_values rec = []
         \<and> parameter_count rec = 0 \<and> return_count rec = 0"
  proof (intro ballI impI)
    fix rec
    assume "rec \<in> set (r_nodes (printed (main lib argv)))" and "node_type rec = ''class''"
    moreover from this obtain K where "within lib K rec" using main_within by blast
    ultimately show "parent rec = [] \<and> parameters rec = [] \<and> return_values rec = []
           \<and> parameter_count rec = 0 \<and> return_count rec = 0"
      using within_kinds by blast
  qed
  have nested: "inner \<noteq> [] \<longrightarrow>
        map (\<lambda>rec. (node_type rec, node_name rec, parent rec))
          (extracted_nodes lib
             [ClassDef outer bs ks
                [ClassDef inner bs' ks' [FunctionDef m a b d r tp l el] d' tp' l' el']
                d'' tp'' l'' el''])
        = [(''class'', outer, []), (''class'', inner, []), (''method'', m, inner)]"
    by (simp add: extracted_nodes_eq)
  from classes nested show ?thesis by (rule conjI)
qed

theorem class_record_has_no_parent_witness:
  "(\<exists>rec \<in> set (r_nodes (printed (main (test_lib nested_class_tree)
                                  [''extractor'', ''nested.py'']))).
      node_type rec = ''class'' \<and> node_name rec = ''Inner'' \<and> parent rec = []
      \<and> parameters rec = [] \<and> return_values rec = []
      \<and> parameter_count rec = 0 \<and> return_count rec = 0)
   \<and> ''Inner'' \<noteq> []
   \<and> map (\<lambda>rec. (node_type rec, node_name rec, parent rec))
        (extracted_nodes (test_lib nested_class_tree) nested_class_tree)
      = [(''class'', ''Outer'', []), (''class'', ''Inner'', []), (''method'', ''run'', ''Inner'')]"
proof -
  let ?lib = "test_lib nested_class_tree"
  let ?argv = "[''extractor'', ''nested.py'']"
  note inst = class_record_has_no_parent [of ?lib ?argv "''Inner''" "''Outer''" "[]" "[]" "[]" "[]"
      "''run''" "plain_arguments [''self'']" "[OtherStmt []]" "[]" None "[]" 3 "Some 3"
      "[]" "[]" 2 "Some 3" "[]" "[]" 1 "Some 3"]
  from main_nested_class obtain r0 r1 r2
    where rs: "r_nodes (printed (main ?lib ?argv)) = [r0, r1, r2]"
      and r1: "node_type r1 = ''class''" "node_name r1 = ''Inner''"
    by (auto simp: map_eq_Cons_conv)
  from rs have "r1 \<in> set (r_nodes (printed (main ?lib ?argv)))" by simp
  with inst r1(1) have "parent r1 = [] \<and> parameters r1 = [] \<and> return_values r1 = []
         \<and> parameter_count r1 = 0 \<and> return_count r1 = 0" by blast
  with rs r1 have first: "\<exists>rec \<in> set (r_nodes (printed (main ?lib ?argv))).
      node_type rec = ''class'' \<and> node_name rec = ''Inner'' \<and> parent rec = []
      \<and> parameters rec = [] \<and> return_values rec = []
      \<and> parameter_count rec = 0 \<and> return_count rec = 0"
    by auto
  have ne: "''Inner'' \<noteq> []" by simp
  with inst have "map (\<lambda>rec. (node_type rec, node_name rec, parent rec))
        (extracted_nodes ?lib nested_class_tree)
      = [(''class'', ''Outer'', []), (''class'', ''Inner'', []), (''method'', ''run'', ''Inner'')]"
    unfolding nested_class_tree_def by blast
  with first ne show ?thesis by blast
qed

text \<open>
  C9. Visiting a function definition, synchronous or asynchronous, adds exactly one
  record, that of the function itself, whatever its body holds. The records of a file
  are, up to the end line and the complexity of each, those of the same file with the
  body of every callable emptied, and as many: no definition inside a callable body has a
  record of its own.
\<close>

theorem callable_body_is_not_searched:
  "nodes (visit lib (FunctionDef n a b d r tp l el) st)
     = nodes st @ [func_node lib (current_class st) (FunctionDef n a b d r tp l el)]
   \<and> nodes (visit lib (AsyncFunctionDef n a b d r tp l el) st)
     = nodes st @ [func_node lib (current_class st) (AsyncFunctionDef n a b d r tp l el)]
   \<and> map declared (extracted_nodes lib (map erase_bodies tree))
     = map declared (extracted_nodes lib tree)
   \<and> length (extracted_nodes lib (map erase_bodies tree)) = length (extracted_nodes lib tree)
   \<and> r_nodes (printed (main (test_lib [outer_with_branching_inner]) [''extractor'', ''m.py'']))
     = [func_node (test_lib [outer_with_branching_inner]) None outer_with_branching_inner]"
proof -
  have erased: "map declared (extracted_nodes lib (map erase_bodies tree))
     = map declared (extracted_nodes lib tree)"
    unfolding extracted_nodes_eq by (rule declared_concat) (rule emitted_nodes_erase_bodies)
  from erased [THEN arg_cong, of length]
  have "length (extracted_nodes lib (map erase_bodies tree)) = length (extracted_nodes lib tree)"
    by simp
  moreover have "r_nodes (printed (main (test_lib [outer_with_branching_inner])
                   [''extractor'', ''m.py'']))
     = [func_node (test_lib [outer_with_branching_inner]) None outer_with_branching_inner]"
    by (simp add: main_def run_extract_cases extracted_nodes_eq outer_with_branching_inner_def
        test_lib_def)
  ultimately show ?thesis using erased by (simp add: visit_FunctionDef_def)
qed


end
